theory Spec2Isabelle
  imports Main
begin

section \<open>Text: Python strings as lists of code points\<close>

text \<open>
  A Python \<open>str\<close> is a sequence of Unicode code points. The keyword tables of
  \<open>chatbot2.py\<close> contain Devanagari words, so a character is a natural number (its
  code point) and not an 8-bit \<open>char\<close>. ASCII literals are written through \<open>ustr\<close>.
\<close>

type_synonym ustring = "nat list"

definition ustr :: "string \<Rightarrow> ustring" where
  "ustr s = map of_char s"

text \<open>\<open>str.isspace\<close> for one code point: the code points CPython treats as whitespace.\<close>

definition isspace :: "nat \<Rightarrow> bool" where
  "isspace c = ((9 \<le> c \<and> c \<le> 13) \<or> (28 \<le> c \<and> c \<le> 32) \<or> c = 133 \<or> c = 160 \<or> c = 5760
     \<or> (8192 \<le> c \<and> c \<le> 8202) \<or> c = 8232 \<or> c = 8233 \<or> c = 8239 \<or> c = 8287 \<or> c = 12288)"

text \<open>\<open>s.strip()\<close>: whitespace removed at both ends.\<close>

definition strip :: "ustring \<Rightarrow> ustring" where
  "strip s = rev (dropWhile isspace (rev (dropWhile isspace s)))"

text \<open>
  \<open>s.split()\<close> without a separator: the maximal runs of non-whitespace, in order.
  \<open>split_aux cur s\<close> scans \<open>s\<close> with the current token \<open>cur\<close> held reversed.
\<close>

fun split_aux :: "ustring \<Rightarrow> ustring \<Rightarrow> ustring list" where
  "split_aux cur [] = (if cur = [] then [] else [rev cur])"
| "split_aux cur (c # cs) =
     (if isspace c then (if cur = [] then split_aux [] cs else rev cur # split_aux [] cs)
      else split_aux (c # cur) cs)"

definition split :: "ustring \<Rightarrow> ustring list" where
  "split s = split_aux [] s"

text \<open>\<open>s.startswith(p)\<close> and the substring test \<open>sub in s\<close>.\<close>

fun startswith :: "ustring \<Rightarrow> ustring \<Rightarrow> bool" where
  "startswith s [] = True"
| "startswith [] (p # ps) = False"
| "startswith (c # cs) (p # ps) = (c = p \<and> startswith cs ps)"

fun contains :: "ustring \<Rightarrow> ustring \<Rightarrow> bool" where
  "contains sub [] = (sub = [])"
| "contains sub (c # cs) = (startswith (c # cs) sub \<or> contains sub cs)"

text \<open>\<open>any(k in s for k in keywords)\<close>.\<close>

definition any_in :: "ustring list \<Rightarrow> ustring \<Rightarrow> bool" where
  "any_in keywords s = list_ex (\<lambda>keyword. contains keyword s) keywords"

text \<open>\<open>str(n)\<close> for an integer: its decimal digits.\<close>

function dec :: "nat \<Rightarrow> ustring" where
  "dec n = (if n < 10 then [48 + n] else dec (n div 10) @ [48 + n mod 10])"
  by pat_completeness auto
termination
  by (relation "measure (\<lambda>n. n)") auto

declare dec.simps [simp del]

text \<open>
  ASCII case folding. \<open>str.lower\<close> itself follows the Unicode case tables of the
  interpreter and is a parameter of the model (\<open>str_lower\<close> below); \<open>ascii_lower\<close> agrees
  with it on text made of ASCII and Devanagari code points.
\<close>

definition ascii_lower :: "ustring \<Rightarrow> ustring" where
  "ascii_lower s = map (\<lambda>c. if 65 \<le> c \<and> c \<le> 90 then c + 32 else c) s"

section \<open>Documents, queries and the collaborators\<close>

datatype error = ProviderError | KeyError | AttributeError | JSONDecodeError

datatype field = Crop | Market | District_name | State_name | Modal_price | Unit_of_price
  | Arrival_date | Other ustring

datatype pyval = VStr ustring | VInt int | VNull

text \<open>A stored document, and a filter document: a Python dict in insertion order.\<close>

type_synonym doc = "(field \<times> pyval) list"

text \<open>\<open>{"$regex": pattern, "$options": options}\<close>\<close>

datatype cond = Regex ustring ustring

type_synonym query = "(field \<times> cond) list"

text \<open>One line of the completion provider's newline-delimited reply, as \<open>json.loads\<close>
  sees it: blank, not parsable, or an object with its \<open>response\<close> text (when present)
  and its \<open>done\<close> flag.\<close>

datatype jline = Blank | Malformed | Obj "ustring option" bool

text \<open>What the pipeline did to its collaborators, in order.\<close>

datatype event =
    TranslateCall ustring ustring ustring
  | StoreCall query
  | WebCall ustring
  | LlamaCall ustring
  | PriceIntentCheck ustring

text \<open>
  The world outside \<open>chatbot2.py\<close>: the interpreter's \<open>str.lower\<close>, \<open>fuzz.ratio\<close> of
  fuzzywuzzy (a score from 0 to 100), the lines of \<open>commodity_list.txt\<close>, the
  \<open>commodity_prices\<close> collection, SerpApi, the Ollama endpoint and googletrans. A call
  that raises is \<open>Inl\<close>.
\<close>

record env =
  str_lower :: "ustring \<Rightarrow> ustring"
  fuzz_ratio :: "ustring \<Rightarrow> ustring \<Rightarrow> nat"
  open_lines :: "error + ustring list"
  find_one :: "query \<Rightarrow> (field \<times> int) list \<Rightarrow> error + doc option"
  organic_results :: "ustring \<Rightarrow> nat \<Rightarrow> error + (ustring option) list"
  ollama_post :: "ustring \<Rightarrow> error + jline list"
  translate :: "ustring \<Rightarrow> ustring \<Rightarrow> ustring \<Rightarrow> error + ustring"

definition bind_err :: "error + 'a \<Rightarrow> ('a \<Rightarrow> error + 'b) \<Rightarrow> error + 'b" where
  "bind_err m f = (case m of Inl e \<Rightarrow> Inl e | Inr x \<Rightarrow> f x)"

section \<open>The commodity catalog\<close>

definition default_commodities :: "ustring list" where
  "default_commodities = map ustr
     [''banana - green'', ''beans'', ''beetroot'', ''betal leaves'', ''bhindi'', ''ladies finger'',
      ''bitter gourd'', ''bottle gourd'', ''brinjal'', ''cabbage'', ''capsicum'', ''carrot'',
      ''cauliflower'', ''cucumber'', ''kheera'', ''fish'', ''garlic'', ''ginger(dry)'',
      ''ginger(green)'', ''green chilli'', ''guar'', ''little gourd'', ''kundru'', ''maize'',
      ''onion'', ''paddy'', ''dhan'', ''papaya (raw)'', ''pointed gourd'', ''parval'', ''potato'',
      ''aloo'', ''pumpkin'', ''rice'', ''chawla'', ''ridgeguard'', ''tori'', ''tomato'',
      ''water melon'', ''yam'', ''ratalu'', ''jack fruit'', ''lemon'', ''nimbu'', ''corn'',
      ''broccoli'', ''colacasia'', ''cluster beans'', ''raddish'', ''green peas'', ''drumstick'',
      ''wheat'']"

text \<open>\<open>load_commodities\<close>: the stripped, lowercased lines that are not blank and do not
  contain \<open>ox\<close>, duplicates dropped keeping the first (\<open>dict.fromkeys\<close>); the built-in
  list when the file cannot be read.\<close>

definition load_commodities :: "env \<Rightarrow> ustring list" where
  "load_commodities E =
     (case open_lines E of
        Inr file \<Rightarrow>
          rev (remdups (rev
            (map (\<lambda>line. str_lower E (strip line))
               (filter (\<lambda>line. strip line \<noteq> [] \<and> \<not> contains (ustr ''ox'') (str_lower E line)) file))))
      | Inl e \<Rightarrow> default_commodities)"

definition commodities :: "env \<Rightarrow> ustring list" where
  "commodities E = load_commodities E"

definition COMMODITY_MAPPING :: "(ustring \<times> ustring) list" where
  "COMMODITY_MAPPING = map (\<lambda>(k, v). (ustr k, ustr v))
     [(''okra'', ''bhindi''),
      (''ladies finger'', ''bhindi''),
      (''lemon'', ''nimbu''),
      (''cucumber'', ''kheera''),
      (''paddy'', ''dhan''),
      (''rice'', ''chawla''),
      (''pointed gourd'', ''parval''),
      (''potato'', ''aloo''),
      (''ridgeguard'', ''tori''),
      (''yam'', ''ratalu''),
      (''brocoli'', ''broccoli''),
      (''ginger'', ''ginger(green)''),
      (''dry ginger'', ''ginger(dry)''),
      (''chilli'', ''green chilli''),
      (''papaya'', ''papaya (raw)''),
      (''sugar beet'', ''beetroot''),
      (''chukandar'', ''beetroot'')]"

text \<open>\<open>COMMODITY_MAPPING.get(name, name)\<close>\<close>

definition mapping_get :: "ustring \<Rightarrow> ustring" where
  "mapping_get name = (case map_of COMMODITY_MAPPING name of Some target \<Rightarrow> target | None \<Rightarrow> name)"

section \<open>Structured price source: \<open>search_commodity_prices\<close>\<close>

definition price_keywords :: "ustring list" where
  "price_keywords = map ustr [''price'', ''cost'', ''rate'', ''value'', ''prie''] @ [[2325, 2368, 2350, 2340]]"

text \<open>\<open>any(fuzz.ratio(keyword, word) > 80 ...)\<close> over the keywords and the given words.\<close>

definition price_intent :: "env \<Rightarrow> ustring list \<Rightarrow> bool" where
  "price_intent E words =
     list_ex (\<lambda>keyword. list_ex (\<lambda>word. fuzz_ratio E keyword word > 80) words) price_keywords"

text \<open>The test of the catalog loop, and the loop: the first commodity that passes.\<close>

definition commodity_matches :: "env \<Rightarrow> ustring \<Rightarrow> ustring \<Rightarrow> bool" where
  "commodity_matches E query_lower commodity =
     (contains commodity query_lower
      \<or> list_ex (\<lambda>word. fuzz_ratio E commodity word > 85) (split query_lower))"

definition match_commodity :: "env \<Rightarrow> ustring \<Rightarrow> ustring option" where
  "match_commodity E query_lower = find (commodity_matches E query_lower) (commodities E)"

text \<open>\<open>d[k] = v\<close> on a dict in insertion order, and \<open>d.update(other)\<close>.\<close>

fun dict_set :: "'k \<Rightarrow> 'v \<Rightarrow> ('k \<times> 'v) list \<Rightarrow> ('k \<times> 'v) list" where
  "dict_set k v [] = [(k, v)]"
| "dict_set k v ((k', v') # rest) =
     (if k = k' then (k, v) # rest else (k', v') # dict_set k v rest)"

definition dict_update :: "('k \<times> 'v) list \<Rightarrow> ('k \<times> 'v) list \<Rightarrow> ('k \<times> 'v) list" where
  "dict_update d other = foldl (\<lambda>acc (k, v). dict_set k v acc) d other"

definition icase :: "string \<Rightarrow> cond" where
  "icase pattern = Regex (ustr pattern) (ustr ''i'')"

definition location_filters :: "ustring \<Rightarrow> query" where
  "location_filters query_lower =
     (let lf0 = [];
          lf1 = (if contains (ustr ''balasore'') query_lower \<or> contains (ustr ''baleswar'') query_lower
                    \<or> contains (ustr ''baleshwar'') query_lower
                 then dict_set District_name (icase ''Balasore|Baleswar|Baleshwar'') lf0 else lf0);
          lf2 = (if contains (ustr ''odisha'') query_lower \<or> contains (ustr ''orissa'') query_lower
                 then dict_set State_name (icase ''Odisha|Orissa'') lf1 else lf1);
          lf3 = (if contains (ustr ''hindol'') query_lower
                 then dict_set Market (icase ''Hindol'') lf2 else lf2);
          lf4 = (if contains (ustr ''rayagada'') query_lower
                 then dict_set District_name (icase ''Rayagada'') lf3 else lf3)
      in lf4)"

definition arrival_desc :: "(field \<times> int) list" where
  "arrival_desc = [(Arrival_date, - 1)]"

text \<open>\<open>result[key]\<close>, the text an f-string puts for a value, and \<open>value.split('T')[0]\<close>.\<close>

definition getitem :: "doc \<Rightarrow> field \<Rightarrow> error + pyval" where
  "getitem d key = (case map_of d key of Some v \<Rightarrow> Inr v | None \<Rightarrow> Inl KeyError)"

fun str_of :: "pyval \<Rightarrow> ustring" where
  "str_of (VStr s) = s"
| "str_of (VInt i) = (if i < 0 then 45 # dec (nat (- i)) else dec (nat i))"
| "str_of VNull = ustr ''None''"

fun date_part :: "pyval \<Rightarrow> error + ustring" where
  "date_part (VStr s) = Inr (takeWhile (\<lambda>c. c \<noteq> 84) s)"
| "date_part (VInt i) = Inl AttributeError"
| "date_part VNull = Inl AttributeError"

definition district_response :: "doc \<Rightarrow> error + ustring" where
  "district_response result =
     bind_err (getitem result Crop) (\<lambda>crop.
     bind_err (getitem result Market) (\<lambda>market.
     bind_err (getitem result District_name) (\<lambda>district.
     bind_err (getitem result State_name) (\<lambda>state.
     bind_err (getitem result Modal_price) (\<lambda>price.
     bind_err (getitem result Unit_of_price) (\<lambda>unit.
     bind_err (getitem result Arrival_date) (\<lambda>arrival.
     bind_err (date_part arrival) (\<lambda>day.
       Inr (ustr ''The price of '' @ str_of crop @ ustr '' in '' @ str_of market @ ustr '', ''
            @ str_of district @ ustr '', '' @ str_of state @ ustr '' is '' @ str_of price
            @ ustr '' '' @ str_of unit @ ustr '' as of '' @ day @ ustr ''.'')))))))))"

definition state_response :: "doc \<Rightarrow> error + ustring" where
  "state_response state_result =
     bind_err (getitem state_result Crop) (\<lambda>crop.
     bind_err (getitem state_result Market) (\<lambda>market.
     bind_err (getitem state_result State_name) (\<lambda>state.
     bind_err (getitem state_result Modal_price) (\<lambda>price.
     bind_err (getitem state_result Unit_of_price) (\<lambda>unit.
     bind_err (getitem state_result Arrival_date) (\<lambda>arrival.
     bind_err (date_part arrival) (\<lambda>day.
       Inr (ustr ''The price of '' @ str_of crop @ ustr '' in '' @ str_of market @ ustr '', ''
            @ str_of state @ ustr '' is '' @ str_of price
            @ ustr '' '' @ str_of unit @ ustr '' as of '' @ day @ ustr ''.''))))))))"

text \<open>\<open>except Exception: return None\<close>\<close>

definition catch_none :: "error + 'a option \<Rightarrow> 'a option" where
  "catch_none r = (case r of Inl e \<Rightarrow> None | Inr x \<Rightarrow> x)"

text \<open>The second tier: the query on crop and state only.\<close>

definition state_tier :: "env \<Rightarrow> ustring \<Rightarrow> query \<Rightarrow> (error + ustring option) \<times> event list" where
  "state_tier E matched lf =
     (case map_of lf State_name of
        None \<Rightarrow> (Inr None, [])
      | Some state_filter \<Rightarrow>
          (let state_query = [(Crop, Regex matched (ustr ''i'')), (State_name, state_filter)]
           in (case find_one E state_query arrival_desc of
                 Inl e \<Rightarrow> (Inl e, [StoreCall state_query])
               | Inr None \<Rightarrow> (Inr None, [StoreCall state_query])
               | Inr (Some state_result) \<Rightarrow>
                   (if state_result = [] then (Inr None, [StoreCall state_query])
                    else (bind_err (state_response state_result) (\<lambda>r. Inr (Some r)),
                          [StoreCall state_query])))))"

text \<open>The body of the \<open>try\<close> block, with the calls it made.\<close>

definition scp_body :: "env \<Rightarrow> ustring \<Rightarrow> (error + ustring option) \<times> event list" where
  "scp_body E query =
     (let query_lower = strip (str_lower E query) in
      if \<not> price_intent E (split query_lower) then (Inr None, [PriceIntentCheck query])
      else
        (case match_commodity E query_lower of
           None \<Rightarrow> (Inr None, [PriceIntentCheck query])
         | Some commodity \<Rightarrow>
             if commodity = [] then (Inr None, [PriceIntentCheck query])
             else
               (let matched = mapping_get commodity;
                    lf = location_filters query_lower;
                    query_dict = dict_update [(Crop, Regex matched (ustr ''i''))] lf
                in (case find_one E query_dict arrival_desc of
                      Inl e \<Rightarrow> (Inl e, [PriceIntentCheck query, StoreCall query_dict])
                    | Inr (Some result) \<Rightarrow>
                        (if result \<noteq> []
                         then (bind_err (district_response result) (\<lambda>r. Inr (Some r)),
                               [PriceIntentCheck query, StoreCall query_dict])
                         else (let (r, evs) = state_tier E matched lf
                               in (r, [PriceIntentCheck query, StoreCall query_dict] @ evs)))
                    | Inr None \<Rightarrow>
                        (let (r, evs) = state_tier E matched lf
                         in (r, [PriceIntentCheck query, StoreCall query_dict] @ evs))))))"

definition search_commodity_prices :: "env \<Rightarrow> ustring \<Rightarrow> ustring option \<times> event list" where
  "search_commodity_prices E query = (let (r, evs) = scp_body E query in (catch_none r, evs))"

section \<open>Web search source: \<open>web_search\<close>\<close>

definition unit_markers :: "ustring list" where
  "unit_markers = map ustr [''rs'', ''inr'', ''rupees'', ''per kg'', ''per quintal'']"

text \<open>\<open>result.get("snippet", "")\<close> and \<open>result["snippet"]\<close> on one organic result.\<close>

definition snippet_get :: "ustring option \<Rightarrow> ustring" where
  "snippet_get result = (case result of Some snippet \<Rightarrow> snippet | None \<Rightarrow> [])"

definition snippet_item :: "ustring option \<Rightarrow> error + ustring" where
  "snippet_item result = (case result of Some snippet \<Rightarrow> Inr snippet | None \<Rightarrow> Inl KeyError)"

definition pick_snippet :: "env \<Rightarrow> (ustring option) list \<Rightarrow> error + ustring option" where
  "pick_snippet E results =
     (case results of
        [] \<Rightarrow> Inr None
      | first # others \<Rightarrow>
          (case find (\<lambda>result. any_in unit_markers (str_lower E (snippet_get result))) results of
             Some result \<Rightarrow> Inr (Some (snippet_get result))
           | None \<Rightarrow> bind_err (snippet_item first) (\<lambda>response. Inr (Some response))))"

definition search_query_of :: "ustring \<Rightarrow> bool \<Rightarrow> ustring" where
  "search_query_of query is_price_query =
     (if is_price_query then ustr ''current price of '' @ query @ ustr '' today'' else query)"

definition web_search :: "env \<Rightarrow> ustring \<Rightarrow> bool \<Rightarrow> ustring option \<times> event list" where
  "web_search E query is_price_query =
     (let search_query = search_query_of query is_price_query
      in (catch_none (bind_err (organic_results E search_query 5) (pick_snippet E)),
          [WebCall search_query]))"

section \<open>Generative source: \<open>get_llama_response\<close>\<close>

definition PROMPT_TEMPLATE :: "ustring \<Rightarrow> ustring" where
  "PROMPT_TEMPLATE user_input =
     [10] @ ustr ''You are a helpful chatbot focused on agriculture, farming, and agricultural equipment. The user asked: ''
     @ [34] @ user_input @ [34, 10]
     @ ustr ''- Understand the user'' @ [39] @ ustr ''s intent.'' @ [10]
     @ ustr ''- Provide a concise, accurate response related to agriculture, farming, or agricultural equipment.'' @ [10]
     @ ustr ''- For price queries, suggest checking local markets or government sources if specific data is unavailable.'' @ [10]
     @ ustr ''- If the query is unclear or outside this scope, politely inform the user that you can only answer agricultural questions.'' @ [10]
     @ ustr ''Response:'' @ [10]"

text \<open>The loop over the reply's lines: fragments are appended until a line is \<open>done\<close>.\<close>

fun read_fragments :: "ustring \<Rightarrow> jline list \<Rightarrow> error + ustring" where
  "read_fragments full_response [] = Inr full_response"
| "read_fragments full_response (Blank # rest) = read_fragments full_response rest"
| "read_fragments full_response (Malformed # rest) = Inl JSONDecodeError"
| "read_fragments full_response (Obj fragment done # rest) =
     (let full = full_response @ (case fragment of Some t \<Rightarrow> t | None \<Rightarrow> [])
      in if done then Inr full else read_fragments full rest)"

text \<open>\<open>s.split(sep)[-1]\<close> for a non-empty \<open>sep\<close>: the text after the last separator found
  scanning from the left. \<open>skip\<close> counts the separator's characters still to pass.\<close>

fun last_piece :: "ustring \<Rightarrow> nat \<Rightarrow> ustring \<Rightarrow> ustring \<Rightarrow> ustring" where
  "last_piece sep skip cur [] = rev cur"
| "last_piece sep skip cur (c # cs) =
     (if 0 < skip then last_piece sep (skip - 1) cur cs
      else if startswith (c # cs) sep then last_piece sep (length sep - 1) [] cs
      else last_piece sep 0 (c # cur) cs)"

definition get_llama_response :: "env \<Rightarrow> ustring \<Rightarrow> ustring option \<times> event list" where
  "get_llama_response E user_input =
     (let prompt = PROMPT_TEMPLATE user_input
      in (catch_none
            (bind_err (ollama_post E prompt) (\<lambda>lines.
             bind_err (read_fragments [] lines) (\<lambda>full_response.
               Inr (Some (strip (last_piece (ustr ''Response:'') 0 [] full_response)))))),
          [LlamaCall prompt]))"

section \<open>The pipeline: \<open>process_query\<close>\<close>

definition en :: ustring where "en = ustr ''en''"
definition hi :: ustring where "hi = ustr ''hi''"

definition translate_response :: "env \<Rightarrow> ustring \<Rightarrow> ustring \<Rightarrow> ustring \<times> event list" where
  "translate_response E txt target_lang =
     (if target_lang = en then (txt, [])
      else ((case translate E txt en target_lang of Inr translated \<Rightarrow> translated | Inl e \<Rightarrow> txt),
            [TranslateCall txt en target_lang]))"

definition agriculture_keywords :: "ustring list" where
  "agriculture_keywords = map ustr
     [''agriculture'', ''farming'', ''crop'', ''commodity'', ''price'', ''rate'', ''cost'', ''equipment'',
      ''tractor'', ''harvest'', ''irrigation'', ''lady finger'', ''bhindi'', ''rice'', ''wheat'', ''potato'',
      ''pests'', ''insects'', ''disease'', ''weeds'', ''crop protection'', ''fertilizer'', ''soil'', ''seeds'',
      ''banana'', ''beans'', ''beetroot'', ''cucumber'', ''fish'', ''garlic'', ''ginger'', ''chilli'', ''maize'',
      ''onion'', ''paddy'', ''papaya'', ''lemon'', ''corn'', ''broccoli'', ''peas'', ''bugs'', ''vermin'',
      ''crop damage'']"

definition hindi_agriculture_keywords :: "ustring list" where
  "hindi_agriculture_keywords =
     [[2325, 2371, 2359, 2367], [2326, 2375, 2340, 2368], [2347, 2360, 2354], [2325, 2368, 2335],
      [2352, 2379, 2327], [2326, 2352, 2346, 2340, 2357, 2366, 2352],
      [2313, 2352, 2381, 2357, 2352, 2325], [2350, 2367, 2335, 2381, 2335, 2368],
      [2348, 2368, 2332], [2346, 2381, 2351, 2366, 2332], [2310, 2354, 2370],
      [2330, 2366, 2357, 2354], [2327, 2375, 2361, 2370, 2306], [2344, 2368, 2306, 2348, 2370],
      [2330, 2369, 2325, 2306, 2342, 2352], [2325, 2368, 2350, 2340]]"

text \<open>The check on the text as typed: the English table for \<open>en\<close> (on the lowercased
  text), the Hindi table for \<open>hi\<close>, nothing for any other language.\<close>

definition original_related :: "env \<Rightarrow> ustring \<Rightarrow> ustring \<Rightarrow> bool" where
  "original_related E user_input input_lang =
     (if input_lang = en then any_in agriculture_keywords (str_lower E user_input)
      else if input_lang = hi then any_in hindi_agriculture_keywords user_input
      else False)"

text \<open>Translation to English: the text the pipeline goes on with, whether the query is
  agriculture-related, and the call made.\<close>

definition translate_in :: "env \<Rightarrow> ustring \<Rightarrow> ustring \<Rightarrow> ustring \<times> bool \<times> event list" where
  "translate_in E user_input input_lang =
     (let is_agriculture_related = original_related E user_input input_lang
      in if input_lang \<noteq> en then
           (case translate E user_input input_lang en of
              Inr translated_query \<Rightarrow>
                (translated_query,
                 is_agriculture_related \<or> any_in agriculture_keywords (str_lower E translated_query),
                 [TranslateCall user_input input_lang en])
            | Inl e \<Rightarrow> (user_input, is_agriculture_related, [TranslateCall user_input input_lang en]))
         else (user_input, is_agriculture_related, []))"

text \<open>Python truthiness of \<open>None\<close> or a string.\<close>

fun truthy :: "ustring option \<Rightarrow> bool" where
  "truthy None = False"
| "truthy (Some s) = (s \<noteq> [])"

text \<open>\<open>return translate_response(msg, input_lang), input_lang\<close>, after the calls \<open>evs\<close>.\<close>

definition reply :: "env \<Rightarrow> ustring \<Rightarrow> ustring \<Rightarrow> event list \<Rightarrow> (ustring \<times> ustring) \<times> event list" where
  "reply E msg input_lang evs =
     (let (response, tevs) = translate_response E msg input_lang
      in ((response, input_lang), evs @ tevs))"

definition msg_empty :: ustring where
  "msg_empty = ustr ''Please enter a valid query.''"

definition msg_refusal :: ustring where
  "msg_refusal = ustr ''Sorry, I can only answer questions about agriculture and farming related questions.''"

definition msg_no_price :: "ustring \<Rightarrow> ustring" where
  "msg_no_price query_to_process =
     ustr ''Sorry, I couldn'' @ [39] @ ustr ''t find recent price data for '' @ query_to_process
     @ ustr ''. Try checking local markets or government sources.''"

definition msg_no_answer :: ustring where
  "msg_no_answer = ustr ''Sorry, I couldn'' @ [39]
     @ ustr ''t find an answer. Please try rephrasing your query or check local agricultural sources.''"

definition from_the_web :: "ustring \<Rightarrow> ustring" where
  "from_the_web web_result = ustr ''From the web: '' @ web_result"

text \<open>The part of \<open>process_query\<close> after the relevance gate.\<close>

definition answer :: "env \<Rightarrow> ustring \<Rightarrow> ustring \<Rightarrow> event list \<Rightarrow> (ustring \<times> ustring) \<times> event list" where
  "answer E query_to_process input_lang evs0 =
     (let is_price_query = price_intent E (split (str_lower E query_to_process));
          evs1 = evs0 @ [PriceIntentCheck query_to_process];
          (commodity_answer, sevs) = search_commodity_prices E query_to_process;
          evs2 = evs1 @ sevs
      in if truthy commodity_answer then reply E (the commodity_answer) input_lang evs2
         else if is_price_query then
           (let (web_result, wevs) = web_search E query_to_process True
            in if truthy web_result
               then reply E (from_the_web (the web_result)) input_lang (evs2 @ wevs)
               else reply E (msg_no_price query_to_process) input_lang (evs2 @ wevs))
         else
           (let (llama_response, levs) = get_llama_response E query_to_process;
                evs3 = evs2 @ levs
            in if truthy llama_response
                  \<and> \<not> contains (ustr ''sorry'') (str_lower E (the llama_response))
               then reply E (the llama_response) input_lang evs3
               else
                 (let (web_result, wevs) = web_search E query_to_process False
                  in if truthy web_result
                     then reply E (from_the_web (the web_result)) input_lang (evs3 @ wevs)
                     else reply E msg_no_answer input_lang (evs3 @ wevs))))"

definition process_query :: "env \<Rightarrow> ustring \<Rightarrow> ustring \<Rightarrow> (ustring \<times> ustring) \<times> event list" where
  "process_query E user_input input_lang =
     (if strip user_input = [] then reply E msg_empty input_lang []
      else
        (let (query_to_process, is_agriculture_related, evs0) = translate_in E user_input input_lang
         in if \<not> is_agriculture_related then reply E msg_refusal input_lang evs0
            else answer E query_to_process input_lang evs0))"

section \<open>The record store's contract\<close>

text \<open>
  \<open>commodity_prices.find_one(filter, sort=[("arrival_date", -1)])\<close> on a collection
  held as a list of documents: the documents that satisfy every condition of the filter,
  ordered by the sort key from the largest down, the first of them returned. A regular
  expression condition holds only of a string field; what a pattern matches is the
  server's business and is the parameter \<open>rx\<close> (pattern, options, subject). The order of
  keys is the server's: a missing or null field below every number, a number below every
  string, strings by code point.
\<close>

fun lex_le :: "ustring \<Rightarrow> ustring \<Rightarrow> bool" where
  "lex_le [] ys = True"
| "lex_le (x # xs) [] = False"
| "lex_le (x # xs) (y # ys) = (x < y \<or> (x = y \<and> lex_le xs ys))"

datatype sort_key = KNull | KNum int | KStr ustring

fun key_le :: "sort_key \<Rightarrow> sort_key \<Rightarrow> bool" where
  "key_le KNull k = True"
| "key_le (KNum i) KNull = False"
| "key_le (KNum i) (KNum j) = (i \<le> j)"
| "key_le (KNum i) (KStr t) = True"
| "key_le (KStr s) KNull = False"
| "key_le (KStr s) (KNum j) = False"
| "key_le (KStr s) (KStr t) = lex_le s t"

definition key_of :: "field \<Rightarrow> doc \<Rightarrow> sort_key" where
  "key_of f d = (case map_of d f of None \<Rightarrow> KNull | Some VNull \<Rightarrow> KNull
                 | Some (VInt i) \<Rightarrow> KNum i | Some (VStr s) \<Rightarrow> KStr s)"

fun cond_holds :: "(ustring \<Rightarrow> ustring \<Rightarrow> ustring \<Rightarrow> bool) \<Rightarrow> doc \<Rightarrow> field \<times> cond \<Rightarrow> bool" where
  "cond_holds rx d (f, Regex pattern options) =
     (case map_of d f of Some (VStr s) \<Rightarrow> rx pattern options s | Some (VInt i) \<Rightarrow> False
      | Some VNull \<Rightarrow> False | None \<Rightarrow> False)"

definition doc_matches :: "(ustring \<Rightarrow> ustring \<Rightarrow> ustring \<Rightarrow> bool) \<Rightarrow> query \<Rightarrow> doc \<Rightarrow> bool" where
  "doc_matches rx q d = list_all (cond_holds rx d) q"

text \<open>The first of the documents once sorted on \<open>f\<close> from the largest key down.\<close>

fun newest :: "field \<Rightarrow> doc list \<Rightarrow> doc option" where
  "newest f [] = None"
| "newest f (d # ds) =
     (case newest f ds of
        None \<Rightarrow> Some d
      | Some b \<Rightarrow> if key_le (key_of f b) (key_of f d) then Some d else Some b)"

definition collection_find_one ::
  "(ustring \<Rightarrow> ustring \<Rightarrow> ustring \<Rightarrow> bool) \<Rightarrow> doc list \<Rightarrow> query \<Rightarrow> (field \<times> int) list \<Rightarrow> error + doc option" where
  "collection_find_one rx docs q srt =
     (let found = filter (doc_matches rx q) docs
      in case srt of
           [(f, direction)] \<Rightarrow>
             if direction = - 1 then Inr (newest f found)
             else Inr (case found of [] \<Rightarrow> None | d # ds \<Rightarrow> Some d)
         | _ \<Rightarrow> Inr (case found of [] \<Rightarrow> None | d # ds \<Rightarrow> Some d))"

section \<open>Stand-ins for the collaborators\<close>

text \<open>
  Deterministic substitutes, used to run the pipeline on concrete requests: a similarity
  that scores identical strings 100 and all others 0, a matcher for patterns that are
  alternatives of literal words with case ignored (the only patterns
  \<open>search_commodity_prices\<close> sends for the built-in catalog's plain names), an unreadable
  catalog file (so the built-in catalog is used), and fixed replies of the store, the
  search provider, the completion provider and the translator.
\<close>

definition exact_ratio :: "ustring \<Rightarrow> ustring \<Rightarrow> nat" where
  "exact_ratio s1 s2 = (if s1 = s2 then 100 else 0)"

fun alternatives :: "ustring \<Rightarrow> ustring \<Rightarrow> ustring list" where
  "alternatives cur [] = [rev cur]"
| "alternatives cur (c # cs) =
     (if c = 124 then rev cur # alternatives [] cs else alternatives (c # cur) cs)"

definition literal_rx :: "ustring \<Rightarrow> ustring \<Rightarrow> ustring \<Rightarrow> bool" where
  "literal_rx pattern options s =
     list_ex (\<lambda>alt. contains (ascii_lower alt) (ascii_lower s)) (alternatives [] pattern)"

definition stub_env ::
  "(query \<Rightarrow> (field \<times> int) list \<Rightarrow> error + doc option) \<Rightarrow> (error + (ustring option) list)
   \<Rightarrow> (error + jline list) \<Rightarrow> (ustring \<Rightarrow> error + ustring) \<Rightarrow> env" where
  "stub_env store web llama tr =
     \<lparr> str_lower = ascii_lower, fuzz_ratio = exact_ratio, open_lines = Inl ProviderError,
       find_one = store, organic_results = (\<lambda>q n. web), ollama_post = (\<lambda>prompt. llama),
       translate = (\<lambda>txt src dest. tr txt) \<rparr>"

definition bhindi_record :: doc where
  "bhindi_record =
     [(Crop, VStr (ustr ''bhindi'')), (Market, VStr (ustr ''Balasore Mkt'')),
      (District_name, VStr (ustr ''Baleswar'')), (State_name, VStr (ustr ''Odisha'')),
      (Modal_price, VInt 2000), (Unit_of_price, VStr (ustr ''Rs/Quintal'')),
      (Arrival_date, VStr (ustr ''2024-05-01T00:00:00''))]"

text \<open>A world where the store and the search provider find nothing, the completion
  provider is down and the translator echoes its input.\<close>

definition silent_env :: env where
  "silent_env = stub_env (\<lambda>q srt. Inr None) (Inr []) (Inl ProviderError) (\<lambda>txt. Inr txt)"

definition bhindi_env :: env where
  "bhindi_env = stub_env (collection_find_one literal_rx [bhindi_record]) (Inr []) (Inl ProviderError) (\<lambda>txt. Inr txt)"

text \<open>Observations on the list of calls.\<close>

fun is_store_call :: "event \<Rightarrow> bool" where
  "is_store_call (StoreCall q) = True"
| "is_store_call e = False"

fun is_web_call :: "event \<Rightarrow> bool" where
  "is_web_call (WebCall q) = True"
| "is_web_call e = False"

fun is_llama_call :: "event \<Rightarrow> bool" where
  "is_llama_call (LlamaCall p) = True"
| "is_llama_call e = False"

fun is_translate_call :: "event \<Rightarrow> bool" where
  "is_translate_call (TranslateCall t s d) = True"
| "is_translate_call e = False"

text \<open>The store call behind an event raised.\<close>

fun store_raises :: "env \<Rightarrow> event \<Rightarrow> bool" where
  "store_raises E (StoreCall q) = isl (find_one E q arrival_desc)"
| "store_raises E e = False"

text \<open>The texts on which price-intent detection ran, in order.\<close>

fun checked_texts :: "event list \<Rightarrow> ustring list" where
  "checked_texts [] = []"
| "checked_texts (PriceIntentCheck t # evs) = t # checked_texts evs"
| "checked_texts (e # evs) = checked_texts evs"

text \<open>The completion provider was called, and no search call came before that call.\<close>

definition llama_before_web :: "event list \<Rightarrow> bool" where
  "llama_before_web evs =
     (list_ex is_llama_call evs \<and> \<not> list_ex is_web_call (takeWhile (\<lambda>e. \<not> is_llama_call e) evs))"

text \<open>Every provider is down.\<close>

definition down_env :: env where
  "down_env = stub_env (\<lambda>q srt. Inl ProviderError) (Inl ProviderError) (Inl ProviderError)
                (\<lambda>txt. Inl ProviderError)"

text \<open>The translator answers \<open>price of rice\<close> whatever it is given; nothing is found.\<close>

definition rice_env :: env where
  "rice_env = stub_env (\<lambda>q srt. Inr None) (Inr []) (Inl ProviderError)
                (\<lambda>txt. Inr (ustr ''price of rice''))"

text \<open>A collection with two bhindi records of Odisha, the later one from Hindol.\<close>

definition hindol_record :: doc where
  "hindol_record =
     [(Crop, VStr (ustr ''Bhindi(Ladies Finger)'')), (Market, VStr (ustr ''Hindol'')),
      (District_name, VStr (ustr ''Dhenkanal'')), (State_name, VStr (ustr ''Odisha'')),
      (Modal_price, VInt 2500), (Unit_of_price, VStr (ustr ''Rs/Quintal'')),
      (Arrival_date, VStr (ustr ''2024-06-15T00:00:00''))]"

definition odisha_env :: env where
  "odisha_env = stub_env (collection_find_one literal_rx [bhindi_record, hindol_record]) (Inr [])
                  (Inl ProviderError) (\<lambda>txt. Inr txt)"

text \<open>The crop condition of a store call is the pattern \<open>name\<close>, case ignored.\<close>

fun store_crop_is :: "ustring \<Rightarrow> event \<Rightarrow> bool" where
  "store_crop_is name (StoreCall q) = (map_of q Crop = Some (Regex name (ustr ''i'')))"
| "store_crop_is name e = True"

section \<open>Properties\<close>

lemma reply_lang: "snd (fst (reply E msg input_lang evs)) = input_lang"
  by (simp add: reply_def split: prod.splits)

lemma answer_lang: "snd (fst (answer E q input_lang evs)) = input_lang"
  by (simp add: answer_def Let_def reply_lang split: prod.splits)

text \<open>
  C10. For every input text and every declared input language, \<open>process_query\<close> returns a
  pair whose second component is the declared input language, unchanged, on every
  control path (empty input, refusal, structured answer, web answer, generative answer
  and the no-answer fallback).
\<close>

theorem process_query_returns_input_lang:
  "snd (fst (process_query E user_input input_lang)) = input_lang"
  by (simp add: process_query_def reply_lang answer_lang split: prod.splits)

theorem process_query_returns_input_lang_witness:
  "snd (fst (process_query silent_env (ustr ''price of bhindi in balasore'') hi)) = hi"
  by (rule process_query_returns_input_lang)

subsection \<open>Synonym resolution\<close>

lemma mapping_values_not_keys:
  "list_all (\<lambda>v. map_of COMMODITY_MAPPING v = None) (map snd COMMODITY_MAPPING)"
  by (simp add: COMMODITY_MAPPING_def ustr_def)

lemma mapping_target_not_key:
  assumes "map_of COMMODITY_MAPPING name = Some target"
  shows "map_of COMMODITY_MAPPING target = None"
proof -
  from assms have "(name, target) \<in> set COMMODITY_MAPPING" by (rule map_of_SomeD)
  then have "target \<in> set (map snd COMMODITY_MAPPING)" by force
  with mapping_values_not_keys show ?thesis by (auto simp: list_all_iff)
qed

text \<open>
  C8. Synonym resolution is idempotent: for every name, resolving the result of a
  resolution returns it unchanged, and resolving an already-canonical name (one the
  resolution maps some synonym to, or any name that is not a key of the synonym map,
  catalog members among them) returns it unchanged.
\<close>

theorem mapping_get_idempotent:
  "mapping_get (mapping_get name) = mapping_get name
   \<and> (map_of COMMODITY_MAPPING name = None \<longrightarrow> mapping_get name = name)
   \<and> (mapping_get other = name \<and> map_of COMMODITY_MAPPING other \<noteq> None \<longrightarrow> mapping_get name = name)"
  by (auto simp: mapping_get_def dest: mapping_target_not_key split: option.splits)

theorem mapping_get_idempotent_witness:
  "mapping_get (ustr ''okra'') = ustr ''bhindi'' \<and> mapping_get (ustr ''bhindi'') = ustr ''bhindi''
   \<and> mapping_get (ustr ''wheat'') = ustr ''wheat''"
proof -
  have okra: "mapping_get (ustr ''okra'') = ustr ''bhindi''"
    by (simp add: mapping_get_def COMMODITY_MAPPING_def ustr_def)
  have key: "map_of COMMODITY_MAPPING (ustr ''okra'') \<noteq> None"
    by (simp add: COMMODITY_MAPPING_def ustr_def)
  have wheat: "map_of COMMODITY_MAPPING (ustr ''wheat'') = None"
    by (simp add: COMMODITY_MAPPING_def ustr_def)
  from mapping_get_idempotent [of "ustr ''bhindi''" "ustr ''okra''"] okra key
  have "mapping_get (ustr ''bhindi'') = ustr ''bhindi''" by blast
  moreover from mapping_get_idempotent [of "ustr ''wheat''" "ustr ''okra''"] wheat
  have "mapping_get (ustr ''wheat'') = ustr ''wheat''" by blast
  ultimately show ?thesis using okra by simp
qed

subsection \<open>Tokens and price intent\<close>

lemma split_aux_dropWhile: "split_aux [] (dropWhile isspace s) = split_aux [] s"
  by (induction s) auto

lemma split_aux_trailing: "list_all isspace ws \<Longrightarrow> split_aux cur (s @ ws) = split_aux cur s"
proof (induction s arbitrary: cur)
  case Nil
  then show ?case by (induction ws arbitrary: cur) auto
next
  case (Cons c cs)
  then show ?case by simp
qed

lemma split_strip: "split (strip s) = split s"
proof -
  let ?t = "dropWhile isspace s"
  have "?t = rev (dropWhile isspace (rev ?t)) @ rev (takeWhile isspace (rev ?t))"
    by (metis rev_append rev_rev_ident takeWhile_dropWhile_id)
  moreover have "list_all isspace (rev (takeWhile isspace (rev ?t)))"
    by (simp add: list_all_iff) (meson set_takeWhileD)
  ultimately have "split_aux [] (rev (dropWhile isspace (rev ?t))) = split_aux [] ?t"
    by (metis split_aux_trailing)
  then show ?thesis by (simp add: split_def strip_def split_aux_dropWhile)
qed

lemma price_intent_iff:
  "price_intent E words
     = (\<exists>word \<in> set words. \<exists>keyword \<in> set price_keywords. 80 < fuzz_ratio E keyword word)"
  by (auto simp: price_intent_def list_ex_iff)

text \<open>
  C5. For every query, the price-intent flag is true if and only if some whitespace
  token of the (lowercased) query has fuzzy similarity strictly greater than 80 to some
  configured price keyword; the flag computed inside \<open>search_commodity_prices\<close> (on the
  stripped text) is the same. In particular, \<open>fuzz.ratio\<close> scoring identical strings 100,
  every query with an exact price keyword among its tokens is a price query, and a query
  all of whose tokens score at most 80 against every price keyword is not.
\<close>

theorem price_intent_characterised:
  "(price_intent E (split (str_lower E query))
      = (\<exists>word \<in> set (split (str_lower E query)). \<exists>keyword \<in> set price_keywords.
           80 < fuzz_ratio E keyword word))
   \<and> price_intent E (split (strip (str_lower E query))) = price_intent E (split (str_lower E query))
   \<and> ((\<forall>s. fuzz_ratio E s s = 100) \<and> keyword \<in> set price_keywords
        \<and> keyword \<in> set (split (str_lower E query))
        \<longrightarrow> price_intent E (split (str_lower E query)))
   \<and> ((\<forall>word \<in> set (split (str_lower E query)). \<forall>keyword \<in> set price_keywords.
           fuzz_ratio E keyword word \<le> 80)
        \<longrightarrow> \<not> price_intent E (split (str_lower E query)))"
proof (intro conjI impI)
  show "price_intent E (split (str_lower E query))
      = (\<exists>word \<in> set (split (str_lower E query)). \<exists>keyword \<in> set price_keywords.
           80 < fuzz_ratio E keyword word)"
    by (rule price_intent_iff)
  show "price_intent E (split (strip (str_lower E query))) = price_intent E (split (str_lower E query))"
    by (simp add: split_strip)
next
  assume a: "(\<forall>s. fuzz_ratio E s s = 100) \<and> keyword \<in> set price_keywords
        \<and> keyword \<in> set (split (str_lower E query))"
  then have "80 < fuzz_ratio E keyword keyword" by simp
  with a show "price_intent E (split (str_lower E query))"
    unfolding price_intent_iff by blast
next
  assume "\<forall>word \<in> set (split (str_lower E query)). \<forall>keyword \<in> set price_keywords.
           fuzz_ratio E keyword word \<le> 80"
  then show "\<not> price_intent E (split (str_lower E query))"
    unfolding price_intent_iff by (meson not_less)
qed

theorem price_intent_characterised_witness:
  "price_intent silent_env (split (str_lower silent_env (ustr ''What is the PRICE of rice'')))"
proof -
  have r: "\<forall>s. fuzz_ratio silent_env s s = 100"
    by (simp add: silent_env_def stub_env_def exact_ratio_def)
  have k: "ustr ''price'' \<in> set price_keywords"
    by (simp add: ustr_def price_keywords_def)
  have w: "ustr ''price'' \<in> set (split (str_lower silent_env (ustr ''What is the PRICE of rice'')))"
    by (simp add: silent_env_def stub_env_def ustr_def split_def ascii_lower_def isspace_def)
  from price_intent_characterised [of silent_env "ustr ''What is the PRICE of rice''" "ustr ''price''"] r k w
  show ?thesis by blast
qed

subsection \<open>Scenario: the price of bhindi in Balasore\<close>

lemma strip_bhindi_query:
  "strip (ustr ''price of bhindi in balasore'') = ustr ''price of bhindi in balasore''"
  by (simp add: strip_def ustr_def isspace_def)

lemma split_bhindi_query:
  "split (ustr ''price of bhindi in balasore'')
     = [ustr ''price'', ustr ''of'', ustr ''bhindi'', ustr ''in'', ustr ''balasore'']"
  by (simp add: ustr_def split_def isspace_def)

lemma filters_bhindi_query:
  "location_filters (ustr ''price of bhindi in balasore'')
     = [(District_name, icase ''Balasore|Baleswar|Baleshwar'')]"
  by (simp add: location_filters_def ustr_def Let_def)

lemma bhindi_record_response:
  "district_response bhindi_record
     = Inr (ustr ''The price of bhindi in Balasore Mkt, Baleswar, Odisha is 2000 Rs/Quintal as of 2024-05-01.'')"
  by (simp add: district_response_def bhindi_record_def getitem_def bind_err_def ustr_def dec.simps)

lemma bhindi_canonical: "mapping_get (ustr ''bhindi'') = ustr ''bhindi''"
  by (simp add: mapping_get_def COMMODITY_MAPPING_def ustr_def)

text \<open>
  C3. For the English query \<open>price of bhindi in balasore\<close>, when the store holds the
  record with crop bhindi, market Balasore Mkt, district Baleswar, state Odisha, modal
  price 2000, unit Rs/Quintal and arrival date 2024-05-01T00:00:00 (and returns it for
  the query the code sends), the structured source returns exactly the sentence
  \<open>The price of bhindi in Balasore Mkt, Baleswar, Odisha is 2000 Rs/Quintal as of 2024-05-01.\<close>
  The premises fix what the claim leaves to the surroundings: the query is already
  lowercase, \<open>fuzz.ratio\<close> scores \<open>price\<close> against itself above 80, and the first
  catalog entry the loop accepts for this query is \<open>bhindi\<close>.
\<close>

theorem bhindi_in_balasore_sentence:
  assumes lower: "str_lower E (ustr ''price of bhindi in balasore'') = ustr ''price of bhindi in balasore''"
    and ratio: "80 < fuzz_ratio E (ustr ''price'') (ustr ''price'')"
    and first: "match_commodity E (ustr ''price of bhindi in balasore'') = Some (ustr ''bhindi'')"
    and store: "find_one E [(Crop, Regex (ustr ''bhindi'') (ustr ''i'')),
                            (District_name, icase ''Balasore|Baleswar|Baleshwar'')] arrival_desc
                  = Inr (Some bhindi_record)"
  shows "fst (search_commodity_prices E (ustr ''price of bhindi in balasore''))
           = Some (ustr ''The price of bhindi in Balasore Mkt, Baleswar, Odisha is 2000 Rs/Quintal as of 2024-05-01.'')"
proof -
  have price: "price_intent E (split (ustr ''price of bhindi in balasore''))"
    using ratio by (simp add: price_intent_def split_bhindi_query price_keywords_def)
  have nonempty: "ustr ''bhindi'' \<noteq> []" "bhindi_record \<noteq> []"
    by (simp_all add: ustr_def bhindi_record_def)
  have qd: "dict_update [(Crop, Regex (ustr ''bhindi'') (ustr ''i''))]
              [(District_name, icase ''Balasore|Baleswar|Baleshwar'')]
            = [(Crop, Regex (ustr ''bhindi'') (ustr ''i'')),
               (District_name, icase ''Balasore|Baleswar|Baleshwar'')]"
    by (simp add: dict_update_def)
  show ?thesis
    by (simp add: search_commodity_prices_def scp_body_def lower strip_bhindi_query price first
        nonempty bhindi_canonical filters_bhindi_query qd store bhindi_record_response
        bind_err_def catch_none_def)
qed

lemma bhindi_sel:
  "str_lower bhindi_env = ascii_lower" "fuzz_ratio bhindi_env = exact_ratio"
  "open_lines bhindi_env = Inl ProviderError"
  "find_one bhindi_env = collection_find_one literal_rx [bhindi_record]"
  by (simp_all add: bhindi_env_def stub_env_def)

theorem bhindi_in_balasore_sentence_witness:
  "fst (search_commodity_prices bhindi_env (ustr ''price of bhindi in balasore''))
     = Some (ustr ''The price of bhindi in Balasore Mkt, Baleswar, Odisha is 2000 Rs/Quintal as of 2024-05-01.'')"
proof -
  have lower: "str_lower bhindi_env (ustr ''price of bhindi in balasore'') = ustr ''price of bhindi in balasore''"
    by (simp add: bhindi_sel ascii_lower_def ustr_def)
  have ratio: "80 < fuzz_ratio bhindi_env (ustr ''price'') (ustr ''price'')"
    by (simp add: bhindi_sel exact_ratio_def)
  have cat: "commodities bhindi_env = default_commodities"
    by (simp add: commodities_def load_commodities_def bhindi_sel)
  have first: "match_commodity bhindi_env (ustr ''price of bhindi in balasore'') = Some (ustr ''bhindi'')"
    by (simp add: match_commodity_def cat default_commodities_def commodity_matches_def split_def
        isspace_def bhindi_sel exact_ratio_def ustr_def)
  have store: "find_one bhindi_env [(Crop, Regex (ustr ''bhindi'') (ustr ''i'')),
                            (District_name, icase ''Balasore|Baleswar|Baleshwar'')] arrival_desc
                  = Inr (Some bhindi_record)"
    by (simp add: bhindi_sel collection_find_one_def arrival_desc_def doc_matches_def
        bhindi_record_def literal_rx_def icase_def ascii_lower_def ustr_def)
  from bhindi_in_balasore_sentence [OF lower ratio first store] show ?thesis .
qed

subsection \<open>The calls of the pipeline\<close>


lemma scp_events_cases:
  "snd (search_commodity_prices E q) = [PriceIntentCheck q]
   \<or> (\<exists>qd. snd (search_commodity_prices E q) = [PriceIntentCheck q, StoreCall qd])
   \<or> (\<exists>qd sq. snd (search_commodity_prices E q) = [PriceIntentCheck q, StoreCall qd, StoreCall sq])"
  by (auto simp: search_commodity_prices_def scp_body_def state_tier_def Let_def
      split: prod.splits option.splits sum.splits if_splits)

lemma scp_no_price:
  assumes "\<not> price_intent E (split (str_lower E q))"
  shows "search_commodity_prices E q = (None, [PriceIntentCheck q])"
  using assms by (simp add: search_commodity_prices_def scp_body_def split_strip catch_none_def)

lemma web_events: "snd (web_search E q b) = [WebCall (search_query_of q b)]"
  by (simp add: web_search_def Let_def)

lemma llama_events: "snd (get_llama_response E q) = [LlamaCall (PROMPT_TEMPLATE q)]"
  by (simp add: get_llama_response_def Let_def)

lemma translate_response_events:
  "snd (translate_response E m l) = (if l = en then [] else [TranslateCall m en l])"
  by (simp add: translate_response_def)

lemma reply_events: "snd (reply E m l evs) = evs @ snd (translate_response E m l)"
  by (simp add: reply_def split: prod.splits)

lemma reply_text: "fst (fst (reply E m l evs)) = fst (translate_response E m l)"
  by (simp add: reply_def split: prod.splits)

lemma translate_in_events:
  "snd (snd (translate_in E u l)) = (if l = en then [] else [TranslateCall u l en])"
  by (simp add: translate_in_def Let_def split: sum.splits)

lemma translate_in_text:
  "fst (translate_in E u l)
     = (if l = en then u else case translate E u l en of Inr t \<Rightarrow> t | Inl e \<Rightarrow> u)"
  by (simp add: translate_in_def Let_def split: sum.splits)

lemma translate_in_related:
  "fst (snd (translate_in E u l))
     = (original_related E u l
        \<or> (l \<noteq> en \<and> (case translate E u l en of
                         Inr t \<Rightarrow> any_in agriculture_keywords (str_lower E t) | Inl e \<Rightarrow> False)))"
  by (simp add: translate_in_def Let_def split: sum.splits)

text \<open>The calls of the part after the gate.\<close>

lemma answer_events:
  "\<exists>tevs. list_all is_translate_call tevs \<and>
     snd (answer E q l evs0) =
       evs0 @ [PriceIntentCheck q] @ snd (search_commodity_prices E q)
       @ (if truthy (fst (search_commodity_prices E q)) then []
          else if price_intent E (split (str_lower E q)) then [WebCall (search_query_of q True)]
          else [LlamaCall (PROMPT_TEMPLATE q)]
               @ (if truthy (fst (get_llama_response E q))
                     \<and> \<not> contains (ustr ''sorry'') (str_lower E (the (fst (get_llama_response E q))))
                  then [] else [WebCall (search_query_of q False)]))
       @ tevs"
proof -
  obtain ca sevs where s: "search_commodity_prices E q = (ca, sevs)" by force
  obtain wr1 wev1 where w1: "web_search E q True = (wr1, wev1)" by force
  obtain wr2 wev2 where w2: "web_search E q False = (wr2, wev2)" by force
  obtain lr lev where ll: "get_llama_response E q = (lr, lev)" by force
  from w1 web_events [of E q True] have wev1: "wev1 = [WebCall (search_query_of q True)]" by simp
  from w2 web_events [of E q False] have wev2: "wev2 = [WebCall (search_query_of q False)]" by simp
  from ll llama_events [of E q] have lev: "lev = [LlamaCall (PROMPT_TEMPLATE q)]" by simp
  have tr: "\<And>m. list_all is_translate_call (snd (translate_response E m l))"
    by (simp add: translate_response_events)
  show ?thesis
    by (auto simp: answer_def Let_def s w1 w2 ll wev1 wev2 lev reply_events intro: tr)
qed

lemma process_query_related:
  assumes "strip u \<noteq> []" and "fst (snd (translate_in E u l))"
  shows "process_query E u l = answer E (fst (translate_in E u l)) l (snd (snd (translate_in E u l)))"
  using assms by (cases "translate_in E u l") (simp add: process_query_def)

lemma process_query_unrelated:
  assumes "strip u \<noteq> []" and "\<not> fst (snd (translate_in E u l))"
  shows "process_query E u l = reply E msg_refusal l (snd (snd (translate_in E u l)))"
  using assms by (cases "translate_in E u l") (simp add: process_query_def)

lemma process_query_blank:
  assumes "strip u = []"
  shows "process_query E u l = reply E msg_empty l []"
  using assms by (simp add: process_query_def)

lemma checked_texts_append: "checked_texts (xs @ ys) = checked_texts xs @ checked_texts ys"
  by (induction xs rule: checked_texts.induct) auto

lemma checked_texts_translate: "list_all is_translate_call evs \<Longrightarrow> checked_texts evs = []"
  by (induction evs rule: checked_texts.induct) auto

lemma checked_texts_scp: "checked_texts (snd (search_commodity_prices E q)) = [q]"
  using scp_events_cases [of E q] by auto

lemma translate_in_events_translate: "list_all is_translate_call (snd (snd (translate_in E u l)))"
  by (simp add: translate_in_events)

lemma checked_texts_answer:
  assumes "list_all is_translate_call evs0"
  shows "checked_texts (snd (answer E q l evs0)) = [q, q]"
proof -
  from answer_events [of E q l evs0] obtain tevs where
    t: "list_all is_translate_call tevs" and
    e: "snd (answer E q l evs0) =
       evs0 @ [PriceIntentCheck q] @ snd (search_commodity_prices E q)
       @ (if truthy (fst (search_commodity_prices E q)) then []
          else if price_intent E (split (str_lower E q)) then [WebCall (search_query_of q True)]
          else [LlamaCall (PROMPT_TEMPLATE q)]
               @ (if truthy (fst (get_llama_response E q))
                     \<and> \<not> contains (ustr ''sorry'') (str_lower E (the (fst (get_llama_response E q))))
                  then [] else [WebCall (search_query_of q False)]))
       @ tevs" by blast
  show ?thesis
    unfolding e
    by (simp add: checked_texts_append checked_texts_scp checked_texts_translate [OF t]
        checked_texts_translate [OF assms])
qed

lemma checked_texts_process_query:
  "checked_texts (snd (process_query E u l))
     = (if strip u = [] \<or> \<not> fst (snd (translate_in E u l)) then []
        else [fst (translate_in E u l), fst (translate_in E u l)])"
proof (cases "strip u = []")
  case True
  then show ?thesis
    by (simp add: process_query_blank reply_events translate_response_events)
next
  case False
  show ?thesis
  proof (cases "fst (snd (translate_in E u l))")
    case True
    with False show ?thesis
      by (simp add: process_query_related checked_texts_answer translate_in_events_translate)
  next
    case r: False
    with False show ?thesis
      by (simp add: process_query_unrelated reply_events checked_texts_append
          checked_texts_translate translate_in_events_translate translate_response_events)
  qed
qed

subsection \<open>The stand-ins, field by field\<close>


lemma silent_sel:
  "str_lower silent_env = ascii_lower" "fuzz_ratio silent_env = exact_ratio"
  "open_lines silent_env = Inl ProviderError" "find_one silent_env = (\<lambda>q srt. Inr None)"
  "organic_results silent_env = (\<lambda>q n. Inr [])" "ollama_post silent_env = (\<lambda>prompt. Inl ProviderError)"
  "translate silent_env = (\<lambda>txt src dest. Inr txt)"
  by (simp_all add: silent_env_def stub_env_def)

lemma rice_sel:
  "str_lower rice_env = ascii_lower" "fuzz_ratio rice_env = exact_ratio"
  "open_lines rice_env = Inl ProviderError" "find_one rice_env = (\<lambda>q srt. Inr None)"
  "organic_results rice_env = (\<lambda>q n. Inr [])" "ollama_post rice_env = (\<lambda>prompt. Inl ProviderError)"
  "translate rice_env = (\<lambda>txt src dest. Inr (ustr ''price of rice''))"
  by (simp_all add: rice_env_def stub_env_def)

lemma down_sel:
  "str_lower down_env = ascii_lower" "fuzz_ratio down_env = exact_ratio"
  "open_lines down_env = Inl ProviderError" "find_one down_env = (\<lambda>q srt. Inl ProviderError)"
  "organic_results down_env = (\<lambda>q n. Inl ProviderError)" "ollama_post down_env = (\<lambda>prompt. Inl ProviderError)"
  "translate down_env = (\<lambda>txt src dest. Inl ProviderError)"
  by (simp_all add: down_env_def stub_env_def)

lemma en_hi: "hi \<noteq> en"
  by (simp add: en_def hi_def ustr_def)

subsection \<open>How often, and on what, price intent is detected\<close>

text \<open>
  C6 (as amended). In the full pipeline, price-intent detection runs exactly twice for a
  request that is not blank and passes the relevance gate, and both times on the same
  text: the working text \<open>query_to_process\<close>, which is the English translation when the
  declared language is not English and the translation succeeded, and the text as typed
  otherwise. For a blank or refused request it does not run. (As stated, with one run on
  the original text and one on its translation, the claim fails: see the counterexample.)
\<close>

theorem price_intent_checked_twice_on_working_text:
  "checked_texts (snd (process_query E user_input input_lang))
     = (if strip user_input = [] \<or> \<not> fst (snd (translate_in E user_input input_lang)) then []
        else [fst (translate_in E user_input input_lang), fst (translate_in E user_input input_lang)])
   \<and> fst (translate_in E user_input input_lang)
       = (if input_lang = en then user_input
          else case translate E user_input input_lang en of Inr t \<Rightarrow> t | Inl e \<Rightarrow> user_input)"
  by (simp only: checked_texts_process_query translate_in_text simp_thms)

theorem price_intent_checked_twice_on_working_text_witness:
  "checked_texts (snd (process_query silent_env (ustr ''price of rice'') en))
     = [ustr ''price of rice'', ustr ''price of rice'']"
proof -
  have nb: "strip (ustr ''price of rice'') \<noteq> []"
    by (simp add: strip_def ustr_def isspace_def)
  have rel: "fst (snd (translate_in silent_env (ustr ''price of rice'') en))"
    by (simp add: translate_in_def original_related_def any_in_def agriculture_keywords_def
        silent_sel ascii_lower_def ustr_def)
  have working: "fst (translate_in silent_env (ustr ''price of rice'') en) = ustr ''price of rice''"
    by (simp add: translate_in_def)
  from price_intent_checked_twice_on_working_text [of silent_env "ustr ''price of rice''" en] nb rel working
  show ?thesis by simp
qed

theorem price_intent_original_text_never_checked:
  "checked_texts (snd (process_query rice_env [2325, 2368, 2350, 2340] hi))
     = [ustr ''price of rice'', ustr ''price of rice'']
   \<and> [2325, 2368, 2350, 2340] \<noteq> ustr ''price of rice''"
proof -
  have nb: "strip [2325, 2368, 2350, 2340] \<noteq> []"
    by (simp add: strip_def isspace_def)
  have rel: "fst (snd (translate_in rice_env [2325, 2368, 2350, 2340] hi))"
    by (simp add: translate_in_def original_related_def any_in_def hindi_agriculture_keywords_def
        en_hi Let_def rice_sel)
  have working: "fst (translate_in rice_env [2325, 2368, 2350, 2340] hi) = ustr ''price of rice''"
    by (simp add: translate_in_text en_hi rice_sel)
  show ?thesis
    using nb rel working by (simp add: checked_texts_process_query) (simp add: ustr_def)
qed

lemma translate_call_only:
  "is_translate_call e \<Longrightarrow> \<not> is_llama_call e \<and> \<not> is_web_call e \<and> \<not> is_store_call e"
  by (cases e) auto

lemma takeWhile_prefix:
  "list_all P xs \<Longrightarrow> \<not> P y \<Longrightarrow> takeWhile P (xs @ y # ys) = xs"
  by (induction xs) auto

subsection \<open>The relevance gate\<close>

lemma scp_store_empty:
  assumes "find_one E = (\<lambda>q srt. Inr None)"
  shows "fst (search_commodity_prices E query) = None"
  by (auto simp: search_commodity_prices_def scp_body_def state_tier_def Let_def catch_none_def assms
      split: prod.splits option.splits sum.splits if_splits)

text \<open>
  C2 (as amended). For every query that reaches the relevance gate (the empty-input check
  before it has let it through), the pipeline classifies it as agriculture-related if and
  only if the lowercased original text (for the English set; the text as typed for the
  Hindi set) or the lowercased canonical-language (English) translation contains a
  keyword from the per-language fixed keyword set: substring membership in the case-folded
  text, not fuzzy. If neither matches, it returns the fixed refusal message (translated
  back) and stops, making no calls to the price store, search, or generative sources.
  (As stated, on the text as typed, the claim fails for a keyword typed in capitals: see
  the counterexample.)
\<close>

theorem relevance_gate:
  assumes "strip user_input \<noteq> []"
  shows "fst (snd (translate_in E user_input input_lang))
           = ((if input_lang = en then any_in agriculture_keywords (str_lower E user_input)
               else if input_lang = hi then any_in hindi_agriculture_keywords user_input
               else False)
              \<or> (input_lang \<noteq> en
                  \<and> (case translate E user_input input_lang en of
                        Inr translated \<Rightarrow> any_in agriculture_keywords (str_lower E translated)
                      | Inl e \<Rightarrow> False)))
       \<and> (fst (snd (translate_in E user_input input_lang))
            \<longrightarrow> process_query E user_input input_lang
                  = answer E (fst (translate_in E user_input input_lang)) input_lang
                      (snd (snd (translate_in E user_input input_lang))))
       \<and> (\<not> fst (snd (translate_in E user_input input_lang))
            \<longrightarrow> fst (fst (process_query E user_input input_lang))
                  = fst (translate_response E msg_refusal input_lang)
                \<and> list_all is_translate_call (snd (process_query E user_input input_lang)))"
proof (intro conjI impI)
  show "fst (snd (translate_in E user_input input_lang))
           = ((if input_lang = en then any_in agriculture_keywords (str_lower E user_input)
               else if input_lang = hi then any_in hindi_agriculture_keywords user_input
               else False)
              \<or> (input_lang \<noteq> en
                  \<and> (case translate E user_input input_lang en of
                        Inr translated \<Rightarrow> any_in agriculture_keywords (str_lower E translated)
                      | Inl e \<Rightarrow> False)))"
    unfolding translate_in_related original_related_def by (rule refl)
next
  assume "fst (snd (translate_in E user_input input_lang))"
  with assms show "process_query E user_input input_lang
                  = answer E (fst (translate_in E user_input input_lang)) input_lang
                      (snd (snd (translate_in E user_input input_lang)))"
    by (rule process_query_related)
next
  assume n: "\<not> fst (snd (translate_in E user_input input_lang))"
  from process_query_unrelated [OF assms n]
  show "fst (fst (process_query E user_input input_lang)) = fst (translate_response E msg_refusal input_lang)"
    by (simp add: reply_text)
  from process_query_unrelated [OF assms n]
  show "list_all is_translate_call (snd (process_query E user_input input_lang))"
    by (simp add: reply_events translate_in_events translate_response_events)
qed

theorem relevance_gate_witness:
  "fst (fst (process_query silent_env (ustr ''what movie should I watch'') en)) = msg_refusal
   \<and> list_all is_translate_call (snd (process_query silent_env (ustr ''what movie should I watch'') en))"
proof -
  have nb: "strip (ustr ''what movie should I watch'') \<noteq> []"
    by (simp add: strip_def ustr_def isspace_def)
  have unrel: "\<not> fst (snd (translate_in silent_env (ustr ''what movie should I watch'') en))"
    by (simp add: translate_in_def original_related_def any_in_def agriculture_keywords_def
        silent_sel ascii_lower_def ustr_def)
  have "fst (translate_response silent_env msg_refusal en) = msg_refusal"
    by (simp add: translate_response_def)
  with relevance_gate [of "ustr ''what movie should I watch''" silent_env en] nb unrel
  show ?thesis by simp
qed

text \<open>
  The English query \<open>TRACTOR\<close> contains no keyword as typed, and has no translation to
  look at; it is classified agriculture-related all the same, and the pipeline goes on
  to call the generative source.
\<close>

theorem uppercase_keyword_is_related:
  "\<not> any_in agriculture_keywords (ustr ''TRACTOR'')
   \<and> fst (snd (translate_in silent_env (ustr ''TRACTOR'') en))
   \<and> list_ex is_llama_call (snd (process_query silent_env (ustr ''TRACTOR'') en))"
proof -
  have exact: "\<not> any_in agriculture_keywords (ustr ''TRACTOR'')"
    by (simp add: any_in_def agriculture_keywords_def ustr_def)
  have nb: "strip (ustr ''TRACTOR'') \<noteq> []"
    by (simp add: strip_def ustr_def isspace_def)
  have rel: "fst (snd (translate_in silent_env (ustr ''TRACTOR'') en))"
    by (simp add: translate_in_def original_related_def any_in_def agriculture_keywords_def
        silent_sel ascii_lower_def ustr_def)
  have working: "fst (translate_in silent_env (ustr ''TRACTOR'') en) = ustr ''TRACTOR''"
    by (simp add: translate_in_def)
  have np: "\<not> price_intent silent_env (split (str_lower silent_env (ustr ''TRACTOR'')))"
    by (simp add: price_intent_def price_keywords_def silent_sel ascii_lower_def split_def
        isspace_def exact_ratio_def ustr_def)
  have none: "fst (search_commodity_prices silent_env (ustr ''TRACTOR'')) = None"
    by (rule scp_store_empty) (simp add: silent_sel)
  from answer_events [of silent_env "ustr ''TRACTOR''" en
      "snd (snd (translate_in silent_env (ustr ''TRACTOR'') en))"]
  have "list_ex is_llama_call
          (snd (answer silent_env (ustr ''TRACTOR'') en
                 (snd (snd (translate_in silent_env (ustr ''TRACTOR'') en)))))"
    using np none by auto
  with process_query_related [OF nb rel] working exact rel show ?thesis by simp
qed

subsection \<open>The order of the fallbacks\<close>

text \<open>
  C1. For every agriculture-related query with price intent for which the structured
  price source yields no record, the pipeline attempts Web Search and never attempts the
  Generative Fallback; for every agriculture-related query without price intent, the
  Generative Fallback is attempted, and before any Web Search.
\<close>

theorem fallback_ordering:
  assumes "strip user_input \<noteq> []"
    and "translate_in E user_input input_lang = (query, True, evs0)"
  shows "(price_intent E (split (str_lower E query)) \<and> fst (search_commodity_prices E query) = None
            \<longrightarrow> list_ex is_web_call (snd (process_query E user_input input_lang))
                \<and> \<not> list_ex is_llama_call (snd (process_query E user_input input_lang)))
       \<and> (\<not> price_intent E (split (str_lower E query))
            \<longrightarrow> llama_before_web (snd (process_query E user_input input_lang)))"
proof -
  have pq: "process_query E user_input input_lang = answer E query input_lang evs0"
    using assms by (simp add: process_query_def)
  have evs0: "list_all is_translate_call evs0"
    using translate_in_events_translate [of E user_input input_lang] assms(2) by simp
  from answer_events [of E query input_lang evs0] obtain tevs where
    t: "list_all is_translate_call tevs" and
    e: "snd (answer E query input_lang evs0) =
       evs0 @ [PriceIntentCheck query] @ snd (search_commodity_prices E query)
       @ (if truthy (fst (search_commodity_prices E query)) then []
          else if price_intent E (split (str_lower E query)) then [WebCall (search_query_of query True)]
          else [LlamaCall (PROMPT_TEMPLATE query)]
               @ (if truthy (fst (get_llama_response E query))
                     \<and> \<not> contains (ustr ''sorry'') (str_lower E (the (fst (get_llama_response E query))))
                  then [] else [WebCall (search_query_of query False)]))
       @ tevs" by blast
  have no_llama: "\<And>evs. list_all is_translate_call evs \<Longrightarrow> \<not> list_ex is_llama_call evs"
    by (auto simp: list_all_iff list_ex_iff dest: translate_call_only)
  have scp_no_llama: "\<not> list_ex is_llama_call (snd (search_commodity_prices E query))"
    using scp_events_cases [of E query] by auto
  show ?thesis
  proof (intro conjI impI)
    assume a: "price_intent E (split (str_lower E query)) \<and> fst (search_commodity_prices E query) = None"
    then show "list_ex is_web_call (snd (process_query E user_input input_lang))"
      by (simp add: pq e)
    from a show "\<not> list_ex is_llama_call (snd (process_query E user_input input_lang))"
      using no_llama [OF evs0] no_llama [OF t] scp_no_llama by (simp add: pq e)
  next
    assume a: "\<not> price_intent E (split (str_lower E query))"
    let ?pre = "evs0 @ [PriceIntentCheck query, PriceIntentCheck query]"
    have pre: "list_all (\<lambda>e. \<not> is_llama_call e) ?pre"
      using no_llama [OF evs0] by (simp add: list_all_iff list_ex_iff)
    have noweb: "\<not> list_ex is_web_call ?pre"
      using evs0 by (auto simp: list_all_iff list_ex_iff dest: translate_call_only)
    obtain rest where r: "snd (process_query E user_input input_lang)
        = ?pre @ LlamaCall (PROMPT_TEMPLATE query) # rest"
      using a by (simp add: pq e scp_no_price)
    have "takeWhile (\<lambda>e. \<not> is_llama_call e) (?pre @ LlamaCall (PROMPT_TEMPLATE query) # rest) = ?pre"
      by (rule takeWhile_prefix [OF pre]) simp
    with noweb show "llama_before_web (snd (process_query E user_input input_lang))"
      unfolding r llama_before_web_def by simp
  qed
qed

theorem fallback_ordering_witness:
  "list_ex is_web_call (snd (process_query silent_env (ustr ''price of mango'') en))
   \<and> \<not> list_ex is_llama_call (snd (process_query silent_env (ustr ''price of mango'') en))
   \<and> llama_before_web (snd (process_query silent_env (ustr ''how do I protect my crop from pests'') en))"
proof -
  have nb1: "strip (ustr ''price of mango'') \<noteq> []"
    by (simp add: strip_def ustr_def isspace_def)
  have tr1: "translate_in silent_env (ustr ''price of mango'') en = (ustr ''price of mango'', True, [])"
    by (simp add: translate_in_def original_related_def any_in_def agriculture_keywords_def
        silent_sel ascii_lower_def ustr_def)
  have p1: "price_intent silent_env (split (str_lower silent_env (ustr ''price of mango'')))"
    by (simp add: price_intent_def price_keywords_def silent_sel ascii_lower_def split_def
        isspace_def exact_ratio_def ustr_def)
  have s1: "fst (search_commodity_prices silent_env (ustr ''price of mango'')) = None"
    by (rule scp_store_empty) (simp add: silent_sel)
  have nb2: "strip (ustr ''how do I protect my crop from pests'') \<noteq> []"
    by (simp add: strip_def ustr_def isspace_def)
  have tr2: "translate_in silent_env (ustr ''how do I protect my crop from pests'') en
               = (ustr ''how do I protect my crop from pests'', True, [])"
    by (simp add: translate_in_def original_related_def any_in_def agriculture_keywords_def
        silent_sel ascii_lower_def ustr_def)
  have p2: "\<not> price_intent silent_env (split (str_lower silent_env (ustr ''how do I protect my crop from pests'')))"
    by (simp add: price_intent_def price_keywords_def silent_sel ascii_lower_def split_def
        isspace_def exact_ratio_def ustr_def)
  from fallback_ordering [OF nb1 tr1] p1 s1 fallback_ordering [OF nb2 tr2] p2
  show ?thesis by blast
qed

subsection \<open>Provider errors stay inside the sources\<close>

text \<open>
  C9. Each answer source (structured price store, web search, generative fallback) is a
  total function whose result is absent (\<open>None\<close>) whenever a call to its backing
  provider raises; no exception reaches the orchestrator (the result type of a source has
  no error alternative, every raise inside it being caught by its \<open>except Exception\<close>).
\<close>

theorem sources_absorb_provider_errors:
  "(list_ex (store_raises E) (snd (search_commodity_prices E query))
      \<longrightarrow> fst (search_commodity_prices E query) = None)
   \<and> (isl (organic_results E (search_query_of query is_price_query) 5)
      \<longrightarrow> fst (web_search E query is_price_query) = None)
   \<and> (isl (ollama_post E (PROMPT_TEMPLATE user_input))
      \<longrightarrow> fst (get_llama_response E user_input) = None)"
proof (intro conjI impI)
  assume "list_ex (store_raises E) (snd (search_commodity_prices E query))"
  then show "fst (search_commodity_prices E query) = None"
    by (auto simp: search_commodity_prices_def scp_body_def state_tier_def Let_def catch_none_def
        split: prod.splits option.splits sum.splits if_splits)
next
  assume "isl (organic_results E (search_query_of query is_price_query) 5)"
  then show "fst (web_search E query is_price_query) = None"
    by (auto simp: web_search_def Let_def catch_none_def bind_err_def isl_def)
next
  assume "isl (ollama_post E (PROMPT_TEMPLATE user_input))"
  then show "fst (get_llama_response E user_input) = None"
    by (auto simp: get_llama_response_def Let_def catch_none_def bind_err_def isl_def)
qed

theorem sources_absorb_provider_errors_witness:
  "fst (search_commodity_prices down_env (ustr ''price of bhindi in balasore'')) = None
   \<and> fst (web_search down_env (ustr ''price of bhindi in balasore'') True) = None
   \<and> fst (get_llama_response down_env (ustr ''price of bhindi in balasore'')) = None"
proof -
  have lower: "str_lower down_env (ustr ''price of bhindi in balasore'') = ustr ''price of bhindi in balasore''"
    by (simp add: down_sel ascii_lower_def ustr_def)
  have price: "price_intent down_env (split (ustr ''price of bhindi in balasore''))"
    by (simp add: price_intent_def split_bhindi_query price_keywords_def down_sel exact_ratio_def)
  have cat: "commodities down_env = default_commodities"
    by (simp add: commodities_def load_commodities_def down_sel)
  have first: "match_commodity down_env (ustr ''price of bhindi in balasore'') = Some (ustr ''bhindi'')"
    by (simp add: match_commodity_def cat default_commodities_def commodity_matches_def split_def
        isspace_def down_sel exact_ratio_def ustr_def)
  have nonempty: "ustr ''bhindi'' \<noteq> []" by (simp add: ustr_def)
  have calls: "snd (search_commodity_prices down_env (ustr ''price of bhindi in balasore''))
         = [PriceIntentCheck (ustr ''price of bhindi in balasore''),
            StoreCall [(Crop, Regex (ustr ''bhindi'') (ustr ''i'')),
                       (District_name, icase ''Balasore|Baleswar|Baleshwar'')]]"
    by (simp add: search_commodity_prices_def scp_body_def lower strip_bhindi_query price first
        nonempty bhindi_canonical filters_bhindi_query dict_update_def down_sel(4))
  have a: "list_ex (store_raises down_env)
             (snd (search_commodity_prices down_env (ustr ''price of bhindi in balasore'')))"
    by (simp add: calls down_sel)
  have b: "isl (organic_results down_env (search_query_of (ustr ''price of bhindi in balasore'') True) 5)"
    by (simp add: down_sel)
  have c: "isl (ollama_post down_env (PROMPT_TEMPLATE (ustr ''price of bhindi in balasore'')))"
    by (simp add: down_sel)
  from sources_absorb_provider_errors [of down_env "ustr ''price of bhindi in balasore''" True
      "ustr ''price of bhindi in balasore''"] a b c
  show ?thesis by blast
qed

subsection \<open>The two tiers of the structured lookup\<close>


lemma lex_le_refl: "lex_le s s"
  by (induction s) auto

lemma lex_le_total: "lex_le s t \<or> lex_le t s"
  by (induction s t rule: lex_le.induct) auto

lemma lex_le_trans: "lex_le s t \<Longrightarrow> lex_le t u \<Longrightarrow> lex_le s u"
proof (induction s t arbitrary: u rule: lex_le.induct)
  case (1 ys)
  then show ?case by simp
next
  case (2 x xs)
  then show ?case by simp
next
  case (3 x xs y ys)
  then show ?case by (cases u) auto
qed

lemma key_le_refl: "key_le k k"
  by (cases k) (auto simp: lex_le_refl)

lemma key_le_total: "key_le a b \<or> key_le b a"
  using lex_le_total by (cases a; cases b) auto

lemma key_le_trans: "key_le a b \<Longrightarrow> key_le b c \<Longrightarrow> key_le a c"
  by (cases a; cases b; cases c) (auto intro: lex_le_trans)

lemma newest_None: "newest f ds = None \<longleftrightarrow> ds = []"
  by (induction ds) (auto split: option.splits)

lemma newest_Some:
  "newest f ds = Some d \<Longrightarrow>
     d \<in> set ds \<and> (\<forall>d' \<in> set ds. key_le (key_of f d') (key_of f d))"
proof (induction ds arbitrary: d)
  case Nil
  then show ?case by simp
next
  case (Cons a ds)
  show ?case
  proof (cases "newest f ds")
    case None
    then have "ds = []" by (simp add: newest_None)
    with Cons.prems None show ?thesis by (simp add: key_le_refl)
  next
    case (Some b)
    from Cons.IH [OF Some] have b: "b \<in> set ds"
      and mx: "\<forall>d' \<in> set ds. key_le (key_of f d') (key_of f b)" by auto
    show ?thesis
    proof (cases "key_le (key_of f b) (key_of f a)")
      case True
      with Cons.prems Some have "d = a" by simp
      with True mx show ?thesis by (auto simp: key_le_refl intro: key_le_trans)
    next
      case False
      with Cons.prems Some have d: "d = b" by simp
      from False key_le_total [of "key_of f b" "key_of f a"]
      have "key_le (key_of f a) (key_of f b)" by blast
      with d b mx show ?thesis by auto
    qed
  qed
qed

lemma find_one_newest:
  "collection_find_one rx docs q arrival_desc = Inr (newest Arrival_date (filter (doc_matches rx q) docs))"
  by (simp add: collection_find_one_def arrival_desc_def)

lemma dict_set_keep_head:
  "k \<noteq> k0 \<Longrightarrow> dict_set k v ((k0, v0) # d) = (k0, v0) # dict_set k v d"
  by simp

lemma dict_update_keep_head:
  "k0 \<notin> fst ` set other \<Longrightarrow> dict_update ((k0, v0) # d) other = (k0, v0) # dict_update d other"
  by (induction other arbitrary: d) (auto simp: dict_update_def)

lemma location_filters_keys:
  "fst ` set (location_filters ql) \<subseteq> {District_name, State_name, Market}"
  by (simp add: location_filters_def Let_def)

lemma crop_not_location: "Crop \<notin> fst ` set (location_filters ql)"
  using location_filters_keys [of ql] by auto

lemma full_query_head:
  "dict_update [(Crop, c)] (location_filters ql) = (Crop, c) # dict_update [] (location_filters ql)"
  by (rule dict_update_keep_head [OF crop_not_location])

lemma matching_doc_nonempty: "doc_matches rx ((Crop, c) # q) d \<Longrightarrow> d \<noteq> []"
  by (cases c) (auto simp: doc_matches_def)

lemma state_tier_collection:
  assumes store: "find_one E = collection_find_one rx docs"
  shows "state_tier E m lf =
     (case map_of lf State_name of
        None \<Rightarrow> (Inr None, [])
      | Some sf \<Rightarrow>
          (case newest Arrival_date
                  (filter (doc_matches rx [(Crop, Regex m (ustr ''i'')), (State_name, sf)]) docs) of
             None \<Rightarrow> (Inr None, [StoreCall [(Crop, Regex m (ustr ''i'')), (State_name, sf)]])
           | Some d \<Rightarrow> (bind_err (state_response d) (\<lambda>r. Inr (Some r)),
                        [StoreCall [(Crop, Regex m (ustr ''i'')), (State_name, sf)]])))"
proof (cases "map_of lf State_name")
  case None
  then show ?thesis by (simp add: state_tier_def)
next
  case (Some sf)
  let ?q = "[(Crop, Regex m (ustr ''i'')), (State_name, sf)]"
  show ?thesis
  proof (cases "newest Arrival_date (filter (doc_matches rx ?q) docs)")
    case None
    with Some show ?thesis by (simp add: state_tier_def store find_one_newest)
  next
    case d: (Some d)
    from newest_Some [OF d] have "doc_matches rx ?q d" by simp
    then have "d \<noteq> []" by (rule matching_doc_nonempty)
    with Some d show ?thesis by (simp add: state_tier_def store find_one_newest)
  qed
qed

text \<open>
  C4. For every resolved query with a matched commodity, the structured source selects
  the single most recent matching record by arrival date (the store sorts the matches on
  \<open>arrival_date\<close> from the largest down and returns the first): the answer is built from
  a matching record whose arrival date no other matching record exceeds. If no record
  matches the full filter set and a state-level filter is present, it asks again with
  only the commodity and the state filter (district and market filters dropped) and
  answers from the most recent of those; only if that finds nothing either (or there is
  no state filter) does it return no data. The store here is a collection answering
  \<open>find_one\<close> as the record store's contract says.
\<close>

theorem two_tier_lookup:
  assumes store: "find_one E = collection_find_one rx docs"
    and price: "price_intent E (split (strip (str_lower E query)))"
    and matched: "match_commodity E (strip (str_lower E query)) = Some commodity"
    and nonempty: "commodity \<noteq> []"
  shows "let crop = (Crop, Regex (mapping_get commodity) (ustr ''i''));
             lf = location_filters (strip (str_lower E query));
             local = filter (doc_matches rx (dict_update [crop] lf)) docs;
             statewide = (case map_of lf State_name of
                            None \<Rightarrow> []
                          | Some sf \<Rightarrow> filter (doc_matches rx [crop, (State_name, sf)]) docs)
         in (local \<noteq> [] \<longrightarrow>
               (\<exists>d \<in> set local.
                  (\<forall>d' \<in> set local. key_le (key_of Arrival_date d') (key_of Arrival_date d))
                  \<and> fst (search_commodity_prices E query)
                      = catch_none (bind_err (district_response d) (\<lambda>r. Inr (Some r)))))
          \<and> (local = [] \<and> statewide \<noteq> [] \<longrightarrow>
               (\<exists>d \<in> set statewide.
                  (\<forall>d' \<in> set statewide. key_le (key_of Arrival_date d') (key_of Arrival_date d))
                  \<and> fst (search_commodity_prices E query)
                      = catch_none (bind_err (state_response d) (\<lambda>r. Inr (Some r)))))
          \<and> (local = [] \<and> statewide = [] \<longrightarrow> fst (search_commodity_prices E query) = None)
          \<and> snd (search_commodity_prices E query)
              = PriceIntentCheck query # StoreCall (dict_update [crop] lf)
                # (if local \<noteq> [] then []
                   else case map_of lf State_name of
                          None \<Rightarrow> []
                        | Some sf \<Rightarrow> [StoreCall [crop, (State_name, sf)]])"
proof -
  define m where "m = mapping_get commodity"
  define lf where "lf = location_filters (strip (str_lower E query))"
  define full where "full = dict_update [(Crop, Regex m (ustr ''i''))] lf"
  define local where "local = filter (doc_matches rx full) docs"
  have head: "full = (Crop, Regex m (ustr ''i'')) # dict_update [] lf"
    unfolding full_def lf_def by (rule full_query_head)
  have body: "scp_body E query =
      (case newest Arrival_date local of
         Some d \<Rightarrow> (bind_err (district_response d) (\<lambda>r. Inr (Some r)),
                     [PriceIntentCheck query, StoreCall full])
       | None \<Rightarrow> (let (r, evs) = state_tier E m lf
                   in (r, [PriceIntentCheck query, StoreCall full] @ evs)))"
  proof (cases "newest Arrival_date local")
    case None
    then show ?thesis
      using price matched nonempty
      by (simp add: scp_body_def Let_def store find_one_newest m_def lf_def full_def local_def)
  next
    case (Some d)
    from newest_Some [OF Some] have "doc_matches rx full d" by (simp add: local_def)
    then have "d \<noteq> []" unfolding head by (rule matching_doc_nonempty)
    with Some show ?thesis
      using price matched nonempty
      by (simp add: scp_body_def Let_def store find_one_newest m_def lf_def full_def local_def)
  qed
  note st = state_tier_collection [OF store, of m lf]
  show ?thesis
  proof (cases "newest Arrival_date local")
    case (Some d)
    from newest_Some [OF Some] have dm: "d \<in> set local"
      and mx: "\<forall>d' \<in> set local. key_le (key_of Arrival_date d') (key_of Arrival_date d)" by auto
    then have ne: "local \<noteq> []" by auto
    have res: "search_commodity_prices E query
        = (catch_none (bind_err (district_response d) (\<lambda>r. Inr (Some r))),
           [PriceIntentCheck query, StoreCall full])"
      by (simp add: search_commodity_prices_def body Some)
    show ?thesis
      using dm mx ne res
      unfolding Let_def m_def [symmetric] lf_def [symmetric] full_def [symmetric] local_def [symmetric]
      by auto
  next
    case None
    then have e: "local = []" by (simp add: newest_None)
    show ?thesis
    proof (cases "map_of lf State_name")
      case n: None
      have res: "search_commodity_prices E query = (None, [PriceIntentCheck query, StoreCall full])"
        by (simp add: search_commodity_prices_def body None st n catch_none_def)
      show ?thesis
        using e n res
        unfolding Let_def m_def [symmetric] lf_def [symmetric] full_def [symmetric] local_def [symmetric]
        by simp
    next
      case s: (Some sf)
      define sq where "sq = [(Crop, Regex m (ustr ''i'')), (State_name, sf)]"
      define statewide where "statewide = filter (doc_matches rx sq) docs"
      show ?thesis
      proof (cases "newest Arrival_date statewide")
        case sn: None
        then have se: "statewide = []" by (simp add: newest_None)
        have res: "search_commodity_prices E query
            = (None, [PriceIntentCheck query, StoreCall full, StoreCall sq])"
          using sn by (simp add: search_commodity_prices_def body None st s catch_none_def
              sq_def statewide_def)
        show ?thesis
          using e s se res
          unfolding Let_def m_def [symmetric] lf_def [symmetric] full_def [symmetric]
            local_def [symmetric]
          by (simp add: sq_def statewide_def)
      next
        case sd: (Some d)
        from newest_Some [OF sd] have dm: "d \<in> set statewide"
          and mx: "\<forall>d' \<in> set statewide. key_le (key_of Arrival_date d') (key_of Arrival_date d)"
          by auto
        then have ne: "statewide \<noteq> []" by auto
        have res: "search_commodity_prices E query
            = (catch_none (bind_err (state_response d) (\<lambda>r. Inr (Some r))),
               [PriceIntentCheck query, StoreCall full, StoreCall sq])"
          using sd by (simp add: search_commodity_prices_def body None st s sq_def statewide_def)
        show ?thesis
          using e s dm mx ne res
          unfolding Let_def m_def [symmetric] lf_def [symmetric] full_def [symmetric]
            local_def [symmetric]
          by (auto simp: sq_def statewide_def)
      qed
    qed
  qed
qed

lemma odisha_sel:
  "str_lower odisha_env = ascii_lower" "fuzz_ratio odisha_env = exact_ratio"
  "open_lines odisha_env = Inl ProviderError"
  "find_one odisha_env = collection_find_one literal_rx [bhindi_record, hindol_record]"
  by (simp_all add: odisha_env_def stub_env_def)

theorem two_tier_lookup_witness:
  "fst (search_commodity_prices odisha_env (ustr ''price of bhindi in rayagada odisha''))
     = Some (ustr ''The price of Bhindi(Ladies Finger) in Hindol, Odisha is 2500 Rs/Quintal as of 2024-06-15.'')"
proof -
  let ?q = "ustr ''price of bhindi in rayagada odisha''"
  have ql: "strip (str_lower odisha_env ?q) = ?q"
    by (simp add: odisha_sel ascii_lower_def strip_def isspace_def ustr_def)
  have price: "price_intent odisha_env (split (strip (str_lower odisha_env ?q)))"
    unfolding ql
    by (simp add: price_intent_def price_keywords_def split_def isspace_def odisha_sel
        exact_ratio_def ustr_def)
  have cat: "commodities odisha_env = default_commodities"
    by (simp add: commodities_def load_commodities_def odisha_sel)
  have matched: "match_commodity odisha_env (strip (str_lower odisha_env ?q)) = Some (ustr ''bhindi'')"
    unfolding ql
    by (simp add: match_commodity_def cat default_commodities_def commodity_matches_def split_def
        isspace_def odisha_sel exact_ratio_def ustr_def)
  have nonempty: "ustr ''bhindi'' \<noteq> []" by (simp add: ustr_def)
  have lf: "location_filters ?q
      = [(State_name, icase ''Odisha|Orissa''), (District_name, icase ''Rayagada'')]"
    by (simp add: location_filters_def ustr_def Let_def)
  have local: "filter (doc_matches literal_rx
                  (dict_update [(Crop, Regex (ustr ''bhindi'') (ustr ''i''))]
                     [(State_name, icase ''Odisha|Orissa''), (District_name, icase ''Rayagada'')]))
                [bhindi_record, hindol_record] = []"
    by (simp add: dict_update_def doc_matches_def bhindi_record_def hindol_record_def
        literal_rx_def icase_def ascii_lower_def ustr_def)
  have statewide: "filter (doc_matches literal_rx
                  [(Crop, Regex (ustr ''bhindi'') (ustr ''i'')), (State_name, icase ''Odisha|Orissa'')])
                [bhindi_record, hindol_record] = [bhindi_record, hindol_record]"
    by (simp add: doc_matches_def bhindi_record_def hindol_record_def
        literal_rx_def icase_def ascii_lower_def ustr_def)
  have older: "\<not> key_le (key_of Arrival_date hindol_record) (key_of Arrival_date bhindi_record)"
    by (simp add: key_of_def bhindi_record_def hindol_record_def ustr_def)
  have sentence: "state_response hindol_record
      = Inr (ustr ''The price of Bhindi(Ladies Finger) in Hindol, Odisha is 2500 Rs/Quintal as of 2024-06-15.'')"
    by (simp add: state_response_def hindol_record_def getitem_def bind_err_def ustr_def dec.simps)
  have st: "map_of [(State_name, icase ''Odisha|Orissa''), (District_name, icase ''Rayagada'')] State_name
      = Some (icase ''Odisha|Orissa'')"
    by simp
  from two_tier_lookup [OF odisha_sel(4) price matched nonempty]
  have "\<exists>d \<in> set [bhindi_record, hindol_record].
          (\<forall>d' \<in> set [bhindi_record, hindol_record].
              key_le (key_of Arrival_date d') (key_of Arrival_date d))
          \<and> fst (search_commodity_prices odisha_env ?q)
              = catch_none (bind_err (state_response d) (\<lambda>r. Inr (Some r)))"
    unfolding ql Let_def bhindi_canonical lf st local statewide option.case
    by simp
  then obtain d where d: "d = bhindi_record \<or> d = hindol_record"
    and mx: "key_le (key_of Arrival_date hindol_record) (key_of Arrival_date d)"
    and res: "fst (search_commodity_prices odisha_env ?q)
              = catch_none (bind_err (state_response d) (\<lambda>r. Inr (Some r)))"
    by auto
  from d mx older have "d = hindol_record" by auto
  with res sentence show ?thesis by (simp add: bind_err_def catch_none_def)
qed

subsection \<open>Commodity matching and synonym resolution\<close>



lemma ustr_nonempty: "(ustr s = []) = (s = [])"
  by (simp add: ustr_def)

lemma default_commodities_nonempty: "[] \<notin> set default_commodities"
proof -
  have "list_all (\<lambda>c. c \<noteq> []) default_commodities"
    by (simp add: default_commodities_def ustr_nonempty)
  then show ?thesis by (auto simp: list_all_iff)
qed

lemma commodities_nonempty:
  assumes "\<And>s. s \<noteq> [] \<Longrightarrow> str_lower E s \<noteq> []"
  shows "[] \<notin> set (commodities E)"
proof (cases "open_lines E")
  case (Inl e)
  then show ?thesis
    by (simp add: commodities_def load_commodities_def default_commodities_nonempty)
next
  case (Inr lines)
  show ?thesis
  proof
    assume "[] \<in> set (commodities E)"
    with Inr obtain line where "strip line \<noteq> []" and "str_lower E (strip line) = []"
      by (auto simp: commodities_def load_commodities_def)
    with assms show False by blast
  qed
qed

lemma dict_update_other_key:
  "k \<notin> fst ` set other \<Longrightarrow> map_of (dict_update d other) k = map_of d k"
proof (induction other arbitrary: d)
  case Nil
  then show ?case by (simp add: dict_update_def)
next
  case (Cons a other)
  obtain k' v' where a: "a = (k', v')" by (cases a)
  have set_other: "\<And>d. k \<noteq> k' \<Longrightarrow> map_of (dict_set k' v' d) k = map_of d k"
  proof -
    fix d :: "('a \<times> 'b) list"
    assume "k \<noteq> k'"
    then show "map_of (dict_set k' v' d) k = map_of d k"
      by (induction d) auto
  qed
  from Cons.prems a have ne: "k \<noteq> k'" and rest: "k \<notin> fst ` set other" by auto
  have "dict_update d (a # other) = dict_update (dict_set k' v' d) other"
    by (simp add: dict_update_def a)
  with Cons.IH [OF rest] set_other [OF ne] show ?case by simp
qed

text \<open>
  C7. For every price-intent query, commodity matching goes through the catalog in its
  order and takes the first commodity that is a substring of the (lowercased, stripped)
  query or has fuzzy similarity strictly greater than 85 to some query token; the
  matched name is replaced by its synonym-map target exactly when it is a key of the
  synonym map, and the result is the crop pattern of every store lookup made. When no
  commodity matches, no lookup is made. (\<open>str.lower\<close> never empties a non-empty string,
  so the catalog has no empty entry.)
\<close>

theorem first_catalog_match_resolved:
  assumes price: "price_intent E (split (strip (str_lower E query)))"
    and lower_nonempty: "\<And>s. s \<noteq> [] \<Longrightarrow> str_lower E s \<noteq> []"
  shows "case match_commodity E (strip (str_lower E query)) of
           None \<Rightarrow>
             list_all (\<lambda>c. \<not> commodity_matches E (strip (str_lower E query)) c) (commodities E)
             \<and> \<not> list_ex is_store_call (snd (search_commodity_prices E query))
         | Some c \<Rightarrow>
             (\<exists>i < length (commodities E).
                 commodities E ! i = c
                 \<and> commodity_matches E (strip (str_lower E query)) c
                 \<and> (\<forall>j < i. \<not> commodity_matches E (strip (str_lower E query)) (commodities E ! j)))
             \<and> list_ex is_store_call (snd (search_commodity_prices E query))
             \<and> list_all (store_crop_is (case map_of COMMODITY_MAPPING c of Some target \<Rightarrow> target | None \<Rightarrow> c))
                  (snd (search_commodity_prices E query))"
proof (cases "match_commodity E (strip (str_lower E query))")
  case None
  then have "list_all (\<lambda>c. \<not> commodity_matches E (strip (str_lower E query)) c) (commodities E)"
    by (auto simp: match_commodity_def find_None_iff list_all_iff)
  moreover have "snd (search_commodity_prices E query) = [PriceIntentCheck query]"
    using price None by (simp add: search_commodity_prices_def scp_body_def)
  ultimately show ?thesis using None by simp
next
  case (Some c)
  then have f: "find (commodity_matches E (strip (str_lower E query))) (commodities E) = Some c"
    by (simp add: match_commodity_def)
  then have idx: "\<exists>i < length (commodities E).
                 commodities E ! i = c
                 \<and> commodity_matches E (strip (str_lower E query)) c
                 \<and> (\<forall>j < i. \<not> commodity_matches E (strip (str_lower E query)) (commodities E ! j))"
    by (auto simp: find_Some_iff)
  then have "c \<in> set (commodities E)" by auto
  with commodities_nonempty [OF lower_nonempty] have ne: "c \<noteq> []" by auto
  let ?m = "mapping_get c"
  let ?lf = "location_filters (strip (str_lower E query))"
  let ?full = "dict_update [(Crop, Regex ?m (ustr ''i''))] ?lf"
  have crop: "map_of ?full Crop = Some (Regex ?m (ustr ''i''))"
    by (simp add: dict_update_other_key [OF crop_not_location])
  have calls: "snd (search_commodity_prices E query) = [PriceIntentCheck query, StoreCall ?full]
      \<or> (\<exists>sf. snd (search_commodity_prices E query)
            = [PriceIntentCheck query, StoreCall ?full,
               StoreCall [(Crop, Regex ?m (ustr ''i'')), (State_name, sf)]])"
    using price Some ne
    by (auto simp: search_commodity_prices_def scp_body_def state_tier_def Let_def
        split: prod.splits option.splits sum.splits if_splits)
  have m: "(case map_of COMMODITY_MAPPING c of Some target \<Rightarrow> target | None \<Rightarrow> c) = ?m"
    by (simp add: mapping_get_def)
  from calls crop have "list_ex is_store_call (snd (search_commodity_prices E query))
      \<and> list_all (store_crop_is ?m) (snd (search_commodity_prices E query))"
    by auto
  with idx Some show ?thesis by (simp add: m)
qed

theorem first_catalog_match_resolved_witness:
  "match_commodity silent_env (strip (str_lower silent_env (ustr ''Cost of Potato in Odisha'')))
     = Some (ustr ''potato'')
   \<and> list_ex is_store_call (snd (search_commodity_prices silent_env (ustr ''Cost of Potato in Odisha'')))
   \<and> list_all (store_crop_is (ustr ''aloo''))
        (snd (search_commodity_prices silent_env (ustr ''Cost of Potato in Odisha'')))"
proof -
  let ?q = "ustr ''Cost of Potato in Odisha''"
  have ql: "strip (str_lower silent_env ?q) = ustr ''cost of potato in odisha''"
    by (simp add: silent_sel ascii_lower_def strip_def isspace_def ustr_def)
  have price: "price_intent silent_env (split (strip (str_lower silent_env ?q)))"
    unfolding ql
    by (simp add: price_intent_def price_keywords_def split_def isspace_def silent_sel
        exact_ratio_def ustr_def)
  have lower_nonempty: "\<And>s. s \<noteq> [] \<Longrightarrow> str_lower silent_env s \<noteq> []"
    by (simp add: silent_sel ascii_lower_def)
  have cat: "commodities silent_env = default_commodities"
    by (simp add: commodities_def load_commodities_def silent_sel)
  have matched: "match_commodity silent_env (strip (str_lower silent_env ?q)) = Some (ustr ''potato'')"
    unfolding ql
    by (simp add: match_commodity_def cat default_commodities_def commodity_matches_def split_def
        isspace_def silent_sel exact_ratio_def ustr_def)
  have syn: "map_of COMMODITY_MAPPING (ustr ''potato'') = Some (ustr ''aloo'')"
    by (simp add: COMMODITY_MAPPING_def ustr_def)
  from first_catalog_match_resolved [OF price lower_nonempty]
  have "list_ex is_store_call (snd (search_commodity_prices silent_env ?q))
        \<and> list_all (store_crop_is (ustr ''aloo'')) (snd (search_commodity_prices silent_env ?q))"
    unfolding matched option.case syn by blast
  with matched show ?thesis by blast
qed

end
